theory Spec2Isabelle
  imports Complex_Main "HOL-Library.Char_ord" "HOL-Library.List_Lexorder" "HOL-Library.Sublist"
begin

section \<open>JavaScript values and the tables of backend/db.sql\<close>

text \<open>
  A parsed JSON value, as \<^verbatim>\<open>express.json()\<close> puts it into \<^verbatim>\<open>req.body\<close> and as the query-string
  parser puts it into \<^verbatim>\<open>req.query\<close>. An object is an association list read with \<open>map_of\<close>.
  The query-string parser only ever produces strings, arrays and objects, never \<open>JNum\<close>.
\<close>

datatype json = JNull | JBool bool | JNum rat | JStr string | JArr "json list"
  | JObj "(string \<times> json) list"

type_synonym js_object = "(string \<times> json) list"

text \<open>
  One record per table of db.sql, one field per column, in the column order of the
  \<^verbatim>\<open>CREATE TABLE\<close> statement. \<^verbatim>\<open>TEXT\<close> is \<open>string\<close>, a nullable column is an \<open>option\<close>
  (\<open>None\<close> is \<^verbatim>\<open>NULL\<close>), \<^verbatim>\<open>NUMERIC\<close> is \<open>rat\<close>, \<^verbatim>\<open>JSON\<close> is \<open>json\<close>. Field names are the column
  names behind a prefix for the table.
\<close>

record user =
  usr_id :: string
  usr_username :: string
  usr_email :: string
  usr_password_hash :: string
  usr_role :: string
  usr_created_at :: string
  usr_updated_at :: string

record client =
  cli_id :: string
  cli_first_name :: string
  cli_last_name :: string
  cli_email :: string
  cli_phone :: string
  cli_address :: string
  cli_status :: string
  cli_additional_details :: "json option"
  cli_created_at :: string
  cli_updated_at :: string

record client_property_interest =
  cpi_id :: string
  cpi_client_id :: string
  cpi_property_type :: string
  cpi_preferred_location :: string
  cpi_price_min :: "rat option"
  cpi_price_max :: "rat option"
  cpi_additional_notes :: "string option"
  cpi_created_at :: string

record property =
  prp_id :: string
  prp_address :: string
  prp_property_type :: string
  prp_price :: rat
  prp_status :: string
  prp_description :: "string option"
  prp_created_at :: string
  prp_updated_at :: string

record appointment =
  apt_id :: string
  apt_client_id :: string
  apt_property_id :: "string option"
  apt_agent_id :: string
  apt_appointment_date :: string
  apt_appointment_time :: string
  apt_notes :: "string option"
  apt_is_confirmed :: bool
  apt_created_at :: string
  apt_updated_at :: string

record communication_log =
  log_id :: string
  log_client_id :: string
  log_user_id :: string
  log_communication_type :: string
  log_note :: string
  log_follow_up_flag :: bool
  log_timestamp :: string

record client_document =
  doc_id :: string
  doc_client_id :: string
  doc_document_name :: string
  doc_document_url :: string
  doc_document_type :: string
  doc_uploaded_at :: string

record user_setting =
  ust_id :: string
  ust_user_id :: string
  ust_dashboard_preferences :: "json option"
  ust_notification_settings :: "json option"
  ust_configuration :: "json option"
  ust_updated_at :: string

text \<open>The database: every table is the list of its rows, in storage order.\<close>

record db =
  users :: "user list"
  clients :: "client list"
  client_property_interests :: "client_property_interest list"
  properties :: "property list"
  appointments :: "appointment list"
  communication_logs :: "communication_log list"
  client_documents :: "client_document list"
  user_settings :: "user_setting list"

section \<open>Errors and responses\<close>

text \<open>
  What a \<^verbatim>\<open>try\<close> block of server.ts can catch: a \<^verbatim>\<open>ZodError\<close> thrown by \<^verbatim>\<open>schema.parse\<close> (its
  issues, each a path and a code), or an error of the storage engine thrown by
  \<^verbatim>\<open>pool.query\<close>. Every handler answers a caught error with status 400 and the error's
  message.
\<close>

datatype zod_issue = Issue string string

datatype error =
    ZodError "zod_issue list"
  | PgSyntaxError
  | PgForeignKeyViolation string string
  | PgInvalidJson

datatype jwt_error = JsonWebTokenError | TokenExpiredError

record jwt_payload =
  pl_id :: string
  pl_role :: string

datatype row =
    UserRow user
  | ClientRow client
  | InterestRow client_property_interest
  | PropertyRow property
  | AppointmentRow appointment
  | LogRow communication_log
  | DocumentRow client_document

datatype content =
    Message string
  | Failure error
  | Entity row
  | Entities "row list"
  | Session string user

text \<open>
  \<open>SendStatus n\<close> is \<^verbatim>\<open>res.sendStatus(n)\<close>, \<open>Json n c\<close> is \<^verbatim>\<open>res.status(n).json(c)\<close> (200 when
  the source sets no status), \<open>SendCsv s\<close> is the \<^verbatim>\<open>text/csv\<close> attachment of the export.
\<close>

datatype response = SendStatus nat | Json nat content | SendCsv string

section \<open>What server.ts calls and does not define\<close>

text \<open>
  The libraries and the environment, as parameters: \<^verbatim>\<open>process.env.JWT_SECRET\<close>,
  \<^verbatim>\<open>jwt.sign\<close> (payload, secret, time of issue in seconds; the source asks for one hour
  of validity), \<^verbatim>\<open>jwt.verify\<close> (token, secret, current time), \<^verbatim>\<open>bcrypt.compare\<close>, the tests
  behind zod's \<^verbatim>\<open>.email()\<close> and \<^verbatim>\<open>.url()\<close>, the ISO rendering of \<^verbatim>\<open>new Date(v)\<close> (\<open>None\<close> for an
  invalid date), what the driver and the engine make of a JavaScript value bound to a
  \<^verbatim>\<open>JSON\<close> column, the engine's \<^verbatim>\<open>ILIKE\<close> (value, pattern), and JavaScript's conversion of a
  value to a string inside \<^verbatim>\<open>Array.prototype.join\<close>.
\<close>

record env =
  env_JWT_SECRET :: "string option"
  jwt_sign :: "jwt_payload \<Rightarrow> string \<Rightarrow> nat \<Rightarrow> string"
  jwt_verify :: "string \<Rightarrow> string \<Rightarrow> nat \<Rightarrow> jwt_error + jwt_payload"
  bcrypt_compare :: "string \<Rightarrow> string \<Rightarrow> bool"
  zod_email :: "string \<Rightarrow> bool"
  zod_url :: "string \<Rightarrow> bool"
  js_date_iso :: "json \<Rightarrow> string option"
  pg_json :: "json \<Rightarrow> error + json option"
  pg_ilike :: "string \<Rightarrow> string \<Rightarrow> bool"
  js_join_cell :: "json \<Rightarrow> string"

text \<open>\<^verbatim>\<open>const JWT_SECRET = process.env.JWT_SECRET || "your_jwt_secret"\<close>\<close>

definition JWT_SECRET :: "env \<Rightarrow> string" where
  "JWT_SECRET X =
     (case env_JWT_SECRET X of
        None \<Rightarrow> ''your_jwt_secret''
      | Some s \<Rightarrow> if s = [] then ''your_jwt_secret'' else s)"

section \<open>The middleware authenticateToken\<close>

text \<open>\<^verbatim>\<open>String.prototype.split\<close> with a one-character separator.\<close>

fun js_split :: "char \<Rightarrow> string \<Rightarrow> string list" where
  "js_split sep [] = [[]]"
| "js_split sep (c # cs) =
     (if c = sep then [] # js_split sep cs
      else (case js_split sep cs of [] \<Rightarrow> [[c]] | w # ws \<Rightarrow> (c # w) # ws))"

text \<open>
  \<^verbatim>\<open>const token = authHeader && authHeader.split(" ")[1]\<close>, read through \<^verbatim>\<open>!token\<close>:
  \<open>None\<close> stands for every falsy outcome (no header, an empty header, no second part, an
  empty second part).
\<close>

definition token_of :: "string option \<Rightarrow> string option" where
  "token_of authHeader =
     (case authHeader of
        None \<Rightarrow> None
      | Some h \<Rightarrow>
          if h = [] then None
          else (case js_split (CHR '' '') h of
                  a # t # rest \<Rightarrow> if t = [] then None else Some t
                | _ \<Rightarrow> None))"

text \<open>
  The middleware either sends a response itself (\<open>Inl\<close>: the route's handler is not
  called) or calls \<^verbatim>\<open>next()\<close> with \<^verbatim>\<open>req.user\<close> set to the decoded payload (\<open>Inr\<close>).
\<close>

definition authenticateToken :: "env \<Rightarrow> nat \<Rightarrow> string option \<Rightarrow> response + jwt_payload" where
  "authenticateToken X now authHeader =
     (case token_of authHeader of
        None \<Rightarrow> Inl (SendStatus 401)
      | Some token \<Rightarrow>
          (case jwt_verify X token (JWT_SECRET X) now of
             Inl err \<Rightarrow> Inl (SendStatus 403)
           | Inr user \<Rightarrow> Inr user))"

section \<open>The zod schemas of backend/schema.ts\<close>

text \<open>
  A field validator reads key \<open>k\<close> of the object handed to \<^verbatim>\<open>parse\<close>: \<open>Inl\<close> holds the issues
  it raises (a wrong type ends the checks of a field, the other checks all run), \<open>Inr\<close> the
  parsed value. For an optional field \<open>None\<close> says that the key is
  absent, and then the parsed object has no such key either; for a nullable field the
  inner \<open>None\<close> is \<^verbatim>\<open>null\<close>.
\<close>

definition z_string :: "js_object \<Rightarrow> string \<Rightarrow> zod_issue list + string" where
  "z_string obj k =
     (case map_of obj k of
        Some (JStr s) \<Rightarrow> Inr s
      | _ \<Rightarrow> Inl [Issue k ''invalid_type''])"


definition z_string_optional :: "js_object \<Rightarrow> string \<Rightarrow> zod_issue list + string option" where
  "z_string_optional obj k =
     (case map_of obj k of
        None \<Rightarrow> Inr None
      | Some (JStr s) \<Rightarrow> Inr (Some s)
      | Some _ \<Rightarrow> Inl [Issue k ''invalid_type''])"

definition z_string_min1_optional :: "js_object \<Rightarrow> string \<Rightarrow> zod_issue list + string option" where
  "z_string_min1_optional obj k =
     (case map_of obj k of
        None \<Rightarrow> Inr None
      | Some (JStr s) \<Rightarrow> if s = [] then Inl [Issue k ''too_small''] else Inr (Some s)
      | Some _ \<Rightarrow> Inl [Issue k ''invalid_type''])"

definition z_string_email_optional :: "env \<Rightarrow> js_object \<Rightarrow> string \<Rightarrow> zod_issue list + string option" where
  "z_string_email_optional X obj k =
     (case map_of obj k of
        None \<Rightarrow> Inr None
      | Some (JStr s) \<Rightarrow> if zod_email X s then Inr (Some s) else Inl [Issue k ''invalid_string'']
      | Some _ \<Rightarrow> Inl [Issue k ''invalid_type''])"

definition z_string_url_optional :: "env \<Rightarrow> js_object \<Rightarrow> string \<Rightarrow> zod_issue list + string option" where
  "z_string_url_optional X obj k =
     (case map_of obj k of
        None \<Rightarrow> Inr None
      | Some (JStr s) \<Rightarrow> if zod_url X s then Inr (Some s) else Inl [Issue k ''invalid_string'']
      | Some _ \<Rightarrow> Inl [Issue k ''invalid_type''])"

definition z_string_nullable_optional ::
  "js_object \<Rightarrow> string \<Rightarrow> zod_issue list + string option option" where
  "z_string_nullable_optional obj k =
     (case map_of obj k of
        None \<Rightarrow> Inr None
      | Some JNull \<Rightarrow> Inr (Some None)
      | Some (JStr s) \<Rightarrow> Inr (Some (Some s))
      | Some _ \<Rightarrow> Inl [Issue k ''invalid_type''])"

definition z_number_nullable_optional ::
  "js_object \<Rightarrow> string \<Rightarrow> zod_issue list + rat option option" where
  "z_number_nullable_optional obj k =
     (case map_of obj k of
        None \<Rightarrow> Inr None
      | Some JNull \<Rightarrow> Inr (Some None)
      | Some (JNum n) \<Rightarrow> Inr (Some (Some n))
      | Some _ \<Rightarrow> Inl [Issue k ''invalid_type''])"

definition z_boolean_optional :: "js_object \<Rightarrow> string \<Rightarrow> zod_issue list + bool option" where
  "z_boolean_optional obj k =
     (case map_of obj k of
        None \<Rightarrow> Inr None
      | Some (JBool b) \<Rightarrow> Inr (Some b)
      | Some _ \<Rightarrow> Inl [Issue k ''invalid_type''])"

text \<open>\<^verbatim>\<open>z.coerce.date().optional()\<close>: a present value goes through \<^verbatim>\<open>new Date(v)\<close>.\<close>

definition z_coerce_date_optional :: "env \<Rightarrow> js_object \<Rightarrow> string \<Rightarrow> zod_issue list + string option" where
  "z_coerce_date_optional X obj k =
     (case map_of obj k of
        None \<Rightarrow> Inr None
      | Some v \<Rightarrow>
          (case js_date_iso X v of
             None \<Rightarrow> Inl [Issue k ''invalid_date'']
           | Some stamp \<Rightarrow> Inr (Some stamp)))"

text \<open>\<^verbatim>\<open>z.any().nullable().optional()\<close> accepts whatever stands under the key.\<close>

definition z_any_nullable_optional :: "js_object \<Rightarrow> string \<Rightarrow> zod_issue list + json option" where
  "z_any_nullable_optional obj k = Inr (map_of obj k)"

text \<open>\<^verbatim>\<open>z.number().int().positive().default(d)\<close> and \<^verbatim>\<open>z.number().int().nonnegative().default(d)\<close>.\<close>

definition z_int_positive_default :: "nat \<Rightarrow> js_object \<Rightarrow> string \<Rightarrow> zod_issue list + nat" where
  "z_int_positive_default d obj k =
     (case map_of obj k of
        None \<Rightarrow> Inr d
      | Some (JNum n) \<Rightarrow>
          (let issues =
                 (if of_int \<lfloor>n\<rfloor> \<noteq> n then [Issue k ''invalid_type''] else []) @
                 (if n \<le> 0 then [Issue k ''too_small''] else [])
           in if issues = [] then Inr (nat \<lfloor>n\<rfloor>) else Inl issues)
      | Some _ \<Rightarrow> Inl [Issue k ''invalid_type''])"

definition z_int_nonnegative_default :: "nat \<Rightarrow> js_object \<Rightarrow> string \<Rightarrow> zod_issue list + nat" where
  "z_int_nonnegative_default d obj k =
     (case map_of obj k of
        None \<Rightarrow> Inr d
      | Some (JNum n) \<Rightarrow>
          (let issues =
                 (if of_int \<lfloor>n\<rfloor> \<noteq> n then [Issue k ''invalid_type''] else []) @
                 (if n < 0 then [Issue k ''too_small''] else [])
           in if issues = [] then Inr (nat \<lfloor>n\<rfloor>) else Inl issues)
      | Some _ \<Rightarrow> Inl [Issue k ''invalid_type''])"

text \<open>\<^verbatim>\<open>z.enum(names).default(d)\<close>\<close>

definition z_enum_default :: "string list \<Rightarrow> string \<Rightarrow> js_object \<Rightarrow> string \<Rightarrow> zod_issue list + string" where
  "z_enum_default names d obj k =
     (case map_of obj k of
        None \<Rightarrow> Inr d
      | Some (JStr s) \<Rightarrow> if s \<in> set names then Inr s else Inl [Issue k ''invalid_enum_value'']
      | Some _ \<Rightarrow> Inl [Issue k ''invalid_type''])"

text \<open>
  \<^verbatim>\<open>z.object({...}).parse\<close> runs every field validator and throws one \<^verbatim>\<open>ZodError\<close> with all
  the issues, in the order of the fields; keys outside the shape are dropped.
  \<open>zod_field\<close> adds one field to the object under construction.
\<close>

fun zod_field :: "zod_issue list + ('a \<Rightarrow> 'b) \<Rightarrow> zod_issue list + 'a \<Rightarrow> zod_issue list + 'b" where
  "zod_field (Inr f) (Inr x) = Inr (f x)"
| "zod_field (Inr f) (Inl js) = Inl js"
| "zod_field (Inl is) (Inr x) = Inl is"
| "zod_field (Inl is) (Inl js) = Inl (is @ js)"

definition zod_parse :: "zod_issue list + 'a \<Rightarrow> error + 'a" where
  "zod_parse r = (case r of Inl is \<Rightarrow> Inl (ZodError is) | Inr v \<Rightarrow> Inr v)"

text \<open>
  \<^verbatim>\<open>{ id: req.params.id, ...req.body }\<close>: a key \<^verbatim>\<open>id\<close> of the body overrides the path
  parameter (\<open>map_of\<close> reads the first binding).
\<close>

definition with_id :: "string \<Rightarrow> js_object \<Rightarrow> js_object" where
  "with_id pid body = body @ [(''id'', JStr pid)]"

record update_client_input =
  uci_id :: string
  uci_first_name :: "string option"
  uci_last_name :: "string option"
  uci_email :: "string option"
  uci_phone :: "string option"
  uci_address :: "string option"
  uci_status :: "string option"
  uci_additional_details :: "json option"

definition updateClientInputSchema :: "env \<Rightarrow> js_object \<Rightarrow> error + update_client_input" where
  "updateClientInputSchema X obj =
     (let p0 = Inr (\<lambda>i fn ln em ph ad st det.
                 \<lparr>uci_id = i, uci_first_name = fn, uci_last_name = ln, uci_email = em,
                  uci_phone = ph, uci_address = ad, uci_status = st,
                  uci_additional_details = det\<rparr>);
          p1 = zod_field p0 (z_string obj ''id'');
          p2 = zod_field p1 (z_string_min1_optional obj ''first_name'');
          p3 = zod_field p2 (z_string_min1_optional obj ''last_name'');
          p4 = zod_field p3 (z_string_email_optional X obj ''email'');
          p5 = zod_field p4 (z_string_min1_optional obj ''phone'');
          p6 = zod_field p5 (z_string_min1_optional obj ''address'');
          p7 = zod_field p6 (z_string_min1_optional obj ''status'');
          p8 = zod_field p7 (z_any_nullable_optional obj ''additional_details'')
      in zod_parse p8)"

record search_input =
  si_query :: "string option"
  si_limit :: nat
  si_offset :: nat
  si_sort_by :: string
  si_sort_order :: string

definition searchInputSchema :: "string list \<Rightarrow> js_object \<Rightarrow> error + search_input" where
  "searchInputSchema sort_columns obj =
     (let p0 = Inr (\<lambda>q l off sb so.
                 \<lparr>si_query = q, si_limit = l, si_offset = off, si_sort_by = sb,
                  si_sort_order = so\<rparr>);
          p1 = zod_field p0 (z_string_optional obj ''query'');
          p2 = zod_field p1 (z_int_positive_default 10 obj ''limit'');
          p3 = zod_field p2 (z_int_nonnegative_default 0 obj ''offset'');
          p4 = zod_field p3 (z_enum_default sort_columns ''created_at'' obj ''sort_by'');
          p5 = zod_field p4 (z_enum_default [''asc'', ''desc''] ''desc'' obj ''sort_order'')
      in zod_parse p5)"

definition searchUserInputSchema :: "js_object \<Rightarrow> error + search_input" where
  "searchUserInputSchema = searchInputSchema [''username'', ''email'', ''created_at'']"

definition searchClientInputSchema :: "js_object \<Rightarrow> error + search_input" where
  "searchClientInputSchema = searchInputSchema [''first_name'', ''last_name'', ''created_at'']"

section \<open>Statements sent to the storage engine\<close>

text \<open>
  \<^verbatim>\<open>SELECT * FROM t WHERE id=$1\<close> is \<open>filter\<close> on the table. The two statements that write
  are below; both return what \<^verbatim>\<open>RETURNING *\<close> returns together with the new table, or the
  error \<^verbatim>\<open>pool.query\<close> throws.

  \<open>bind_all\<close> binds the parameters of a \<^verbatim>\<open>SET\<close> list from left to right: each entry becomes
  an assignment on a row, or the error of its conversion to the column's type.
\<close>

fun bind_all :: "('s \<Rightarrow> error + ('r \<Rightarrow> 'r)) \<Rightarrow> 's list \<Rightarrow> error + ('r \<Rightarrow> 'r)" where
  "bind_all assign [] = Inr id"
| "bind_all assign (s # ss) =
     (case assign s of
        Inl e \<Rightarrow> Inl e
      | Inr g \<Rightarrow>
          (case bind_all assign ss of
             Inl e \<Rightarrow> Inl e
           | Inr h \<Rightarrow> Inr (h \<circ> g)))"

text \<open>
  \<^verbatim>\<open>UPDATE t SET <fields> WHERE id=$n RETURNING *\<close>. With no field the text is
  \<^verbatim>\<open>UPDATE t SET  WHERE id=$1 RETURNING *\<close>, which the engine refuses as a syntax error
  before it looks at any row.
\<close>

definition sql_update ::
  "('s \<Rightarrow> error + ('r \<Rightarrow> 'r)) \<Rightarrow> ('r \<Rightarrow> string) \<Rightarrow> 'r list \<Rightarrow> 's list \<Rightarrow> string
     \<Rightarrow> error + ('r list \<times> 'r list)" where
  "sql_update assign key rows field_list pid =
     (if field_list = [] then Inl PgSyntaxError
      else (case bind_all assign field_list of
              Inl e \<Rightarrow> Inl e
            | Inr g \<Rightarrow>
                Inr (map g (filter (\<lambda>r. key r = pid) rows),
                     map (\<lambda>r. if key r = pid then g r else r) rows)))"

text \<open>
  \<^verbatim>\<open>DELETE FROM t WHERE id=$1 RETURNING *\<close>. \<open>referencing\<close> lists the tables that hold a row
  whose foreign key points at \<open>pid\<close>. db.sql declares every foreign key without an
  \<^verbatim>\<open>ON DELETE\<close> clause, so the engine refuses to delete a row that is still referenced
  and deletes nothing else with it.
\<close>

definition sql_delete ::
  "string \<Rightarrow> ('r \<Rightarrow> string) \<Rightarrow> 'r list \<Rightarrow> string list \<Rightarrow> string
     \<Rightarrow> error + ('r list \<times> 'r list)" where
  "sql_delete tbl key rows referencing pid =
     (let hit = filter (\<lambda>r. key r = pid) rows in
      case referencing of
        [] \<Rightarrow> Inr (hit, filter (\<lambda>r. key r \<noteq> pid) rows)
      | child # others \<Rightarrow>
          if hit = [] then Inr ([], rows) else Inl (PgForeignKeyViolation tbl child))"

text \<open>The foreign keys of db.sql that point at \<^verbatim>\<open>clients\<close>, \<^verbatim>\<open>users\<close> and \<^verbatim>\<open>properties\<close>.\<close>

definition referencing_client :: "db \<Rightarrow> string \<Rightarrow> string list" where
  "referencing_client d pid =
     (if list_ex (\<lambda>i. cpi_client_id i = pid) (client_property_interests d)
      then [''client_property_interests''] else []) @
     (if list_ex (\<lambda>a. apt_client_id a = pid) (appointments d)
      then [''appointments''] else []) @
     (if list_ex (\<lambda>l. log_client_id l = pid) (communication_logs d)
      then [''communication_logs''] else []) @
     (if list_ex (\<lambda>x. doc_client_id x = pid) (client_documents d)
      then [''client_documents''] else [])"

definition referencing_user :: "db \<Rightarrow> string \<Rightarrow> string list" where
  "referencing_user d pid =
     (if list_ex (\<lambda>a. apt_agent_id a = pid) (appointments d)
      then [''appointments''] else []) @
     (if list_ex (\<lambda>l. log_user_id l = pid) (communication_logs d)
      then [''communication_logs''] else []) @
     (if list_ex (\<lambda>s. ust_user_id s = pid) (user_settings d)
      then [''user_settings''] else [])"

definition referencing_property :: "db \<Rightarrow> string \<Rightarrow> string list" where
  "referencing_property d pid =
     (if list_ex (\<lambda>a. apt_property_id a = Some pid) (appointments d)
      then [''appointments''] else [])"

text \<open>
  \<^verbatim>\<open>ORDER BY <sort_by> <sort_order>\<close> on a \<^verbatim>\<open>TEXT\<close> column, then \<^verbatim>\<open>LIMIT\<close> and \<^verbatim>\<open>OFFSET\<close>. Text is
  compared character by character; rows with equal keys keep a fixed order.
\<close>

definition order_by :: "('r \<Rightarrow> string) \<Rightarrow> string \<Rightarrow> 'r list \<Rightarrow> 'r list" where
  "order_by key sort_order rows =
     (if sort_order = ''asc'' then sort_key key rows else rev (sort_key key rows))"

definition limit_offset :: "nat \<Rightarrow> nat \<Rightarrow> 'r list \<Rightarrow> 'r list" where
  "limit_offset l off rows = take l (drop off rows)"

text \<open>\<^verbatim>\<open>Array.prototype.join\<close> on strings.\<close>

fun js_join :: "string \<Rightarrow> string list \<Rightarrow> string" where
  "js_join sep [] = []"
| "js_join sep [x] = x"
| "js_join sep (x # y # ys) = x @ sep @ js_join sep (y # ys)"

section \<open>The handlers of backend/server.ts\<close>

text \<open>
  Each handler is named after its route. A handler that writes returns the response and
  the new database. \<open>guarded\<close> is \<^verbatim>\<open>app.METHOD(path, authenticateToken, handler)\<close>: \<open>sent\<close>
  receives the response of the middleware, \<open>handler\<close> receives \<^verbatim>\<open>req.user\<close>.
\<close>

definition guarded ::
  "env \<Rightarrow> nat \<Rightarrow> string option \<Rightarrow> (response \<Rightarrow> 'a) \<Rightarrow> (jwt_payload \<Rightarrow> 'a) \<Rightarrow> 'a" where
  "guarded X now authHeader sent handler =
     (case authenticateToken X now authHeader of
        Inl r \<Rightarrow> sent r
      | Inr user \<Rightarrow> handler user)"

text \<open>
  \<^verbatim>\<open>if (parsed.f) { fields.push(...); values.push(parsed.f) }\<close> on a string field (an absent
  key and the empty string are falsy), and \<^verbatim>\<open>if ('f' in parsed) { ... }\<close>.
\<close>

definition if_truthy :: "string option \<Rightarrow> (string \<Rightarrow> 'a) \<Rightarrow> 'a list" where
  "if_truthy v mk = (case v of None \<Rightarrow> [] | Some s \<Rightarrow> if s = [] then [] else [mk s])"

definition if_in :: "'v option \<Rightarrow> ('v \<Rightarrow> 'a) \<Rightarrow> 'a list" where
  "if_in v mk = (case v of None \<Rightarrow> [] | Some x \<Rightarrow> [mk x])"

subsection \<open>POST /api/auth/login\<close>




subsection \<open>Users\<close>

definition user_column :: "string \<Rightarrow> user \<Rightarrow> string" where
  "user_column sort_by =
     (if sort_by = ''username'' then usr_username
      else if sort_by = ''email'' then usr_email
      else usr_created_at)"

definition get_users :: "env \<Rightarrow> db \<Rightarrow> jwt_payload \<Rightarrow> js_object \<Rightarrow> response" where
  "get_users X d user query =
     (if pl_role user \<noteq> ''admin'' \<and> pl_role user \<noteq> ''manager''
      then Json 403 (Message ''Forbidden'')
      else (case searchUserInputSchema query of
              Inl err \<Rightarrow> Json 400 (Failure err)
            | Inr queryParams \<Rightarrow>
                (let found =
                       (case si_query queryParams of
                          None \<Rightarrow> users d
                        | Some q \<Rightarrow>
                            if q = [] then users d
                            else filter (\<lambda>u. pg_ilike X (usr_username u) (''%'' @ q @ ''%'') \<or>
                                            pg_ilike X (usr_email u) (''%'' @ q @ ''%''))
                                   (users d))
                 in Json 200
                      (Entities
                         (map UserRow
                            (limit_offset (si_limit queryParams) (si_offset queryParams)
                               (order_by (user_column (si_sort_by queryParams))
                                  (si_sort_order queryParams) found)))))))"

definition get_users_id :: "db \<Rightarrow> string \<Rightarrow> response" where
  "get_users_id d pid =
     (case filter (\<lambda>u. usr_id u = pid) (users d) of
        [] \<Rightarrow> Json 404 (Message ''User not found'')
      | r # rest \<Rightarrow> Json 200 (Entity (UserRow r)))"

definition delete_users_id :: "db \<Rightarrow> jwt_payload \<Rightarrow> string \<Rightarrow> response \<times> db" where
  "delete_users_id d user pid =
     (if pl_role user \<noteq> ''admin'' then (Json 403 (Message ''Forbidden''), d)
      else (case sql_delete ''users'' usr_id (users d) (referencing_user d pid) pid of
              Inl err \<Rightarrow> (Json 400 (Failure err), d)
            | Inr (rows, tbl) \<Rightarrow>
                (case rows of
                   [] \<Rightarrow> (Json 404 (Message ''User not found''), d\<lparr>users := tbl\<rparr>)
                 | r # rest \<Rightarrow> (Json 200 (Message ''User deleted successfully''), d\<lparr>users := tbl\<rparr>))))"

subsection \<open>Clients\<close>

definition client_column :: "string \<Rightarrow> client \<Rightarrow> string" where
  "client_column sort_by =
     (if sort_by = ''first_name'' then cli_first_name
      else if sort_by = ''last_name'' then cli_last_name
      else cli_created_at)"

definition get_clients :: "env \<Rightarrow> db \<Rightarrow> js_object \<Rightarrow> response" where
  "get_clients X d query =
     (case searchClientInputSchema query of
        Inl err \<Rightarrow> Json 400 (Failure err)
      | Inr queryParams \<Rightarrow>
          (let found =
                 (case si_query queryParams of
                    None \<Rightarrow> clients d
                  | Some q \<Rightarrow>
                      if q = [] then clients d
                      else filter (\<lambda>c. pg_ilike X (cli_first_name c) (''%'' @ q @ ''%'') \<or>
                                      pg_ilike X (cli_last_name c) (''%'' @ q @ ''%'') \<or>
                                      pg_ilike X (cli_email c) (''%'' @ q @ ''%''))
                             (clients d))
           in Json 200
                (Entities
                   (map ClientRow
                      (limit_offset (si_limit queryParams) (si_offset queryParams)
                         (order_by (client_column (si_sort_by queryParams))
                            (si_sort_order queryParams) found))))))"

definition get_clients_id :: "db \<Rightarrow> string \<Rightarrow> response" where
  "get_clients_id d pid =
     (case filter (\<lambda>c. cli_id c = pid) (clients d) of
        [] \<Rightarrow> Json 404 (Message ''Client not found'')
      | r # rest \<Rightarrow> Json 200 (Entity (ClientRow r)))"

text \<open>The entries of \<^verbatim>\<open>fields\<close> and \<^verbatim>\<open>values\<close> in \<^verbatim>\<open>PUT /api/clients/:id\<close>, one constructor per column.\<close>

datatype client_set =
    Cli_first_name string
  | Cli_last_name string
  | Cli_email string
  | Cli_phone string
  | Cli_address string
  | Cli_status string
  | Cli_additional_details json
  | Cli_updated_at string

fun client_assign :: "env \<Rightarrow> client_set \<Rightarrow> error + (client \<Rightarrow> client)" where
  "client_assign X (Cli_first_name s) = Inr (\<lambda>c. c\<lparr>cli_first_name := s\<rparr>)"
| "client_assign X (Cli_last_name s) = Inr (\<lambda>c. c\<lparr>cli_last_name := s\<rparr>)"
| "client_assign X (Cli_email s) = Inr (\<lambda>c. c\<lparr>cli_email := s\<rparr>)"
| "client_assign X (Cli_phone s) = Inr (\<lambda>c. c\<lparr>cli_phone := s\<rparr>)"
| "client_assign X (Cli_address s) = Inr (\<lambda>c. c\<lparr>cli_address := s\<rparr>)"
| "client_assign X (Cli_status s) = Inr (\<lambda>c. c\<lparr>cli_status := s\<rparr>)"
| "client_assign X (Cli_additional_details v) =
     (case pg_json X v of
        Inl e \<Rightarrow> Inl e
      | Inr j \<Rightarrow> Inr (\<lambda>c. c\<lparr>cli_additional_details := j\<rparr>))"
| "client_assign X (Cli_updated_at s) = Inr (\<lambda>c. c\<lparr>cli_updated_at := s\<rparr>)"

text \<open>\<open>now\<close> is \<^verbatim>\<open>new Date().toISOString()\<close> at the time of the request.\<close>

definition client_fields :: "update_client_input \<Rightarrow> string \<Rightarrow> client_set list" where
  "client_fields parsed now =
     if_truthy (uci_first_name parsed) Cli_first_name @
     if_truthy (uci_last_name parsed) Cli_last_name @
     if_truthy (uci_email parsed) Cli_email @
     if_truthy (uci_phone parsed) Cli_phone @
     if_truthy (uci_address parsed) Cli_address @
     if_truthy (uci_status parsed) Cli_status @
     if_in (uci_additional_details parsed) Cli_additional_details @
     [Cli_updated_at now]"

definition put_clients_id :: "env \<Rightarrow> string \<Rightarrow> db \<Rightarrow> string \<Rightarrow> js_object \<Rightarrow> response \<times> db" where
  "put_clients_id X now d pid body =
     (case updateClientInputSchema X (with_id pid body) of
        Inl err \<Rightarrow> (Json 400 (Failure err), d)
      | Inr parsed \<Rightarrow>
          (case sql_update (client_assign X) cli_id (clients d) (client_fields parsed now) pid of
             Inl err \<Rightarrow> (Json 400 (Failure err), d)
           | Inr (rows, tbl) \<Rightarrow>
               (case rows of
                  [] \<Rightarrow> (Json 404 (Message ''Client not found''), d\<lparr>clients := tbl\<rparr>)
                | r # rest \<Rightarrow> (Json 200 (Entity (ClientRow r)), d\<lparr>clients := tbl\<rparr>))))"

definition delete_clients_id :: "db \<Rightarrow> string \<Rightarrow> response \<times> db" where
  "delete_clients_id d pid =
     (case sql_delete ''clients'' cli_id (clients d) (referencing_client d pid) pid of
        Inl err \<Rightarrow> (Json 400 (Failure err), d)
      | Inr (rows, tbl) \<Rightarrow>
          (case rows of
             [] \<Rightarrow> (Json 404 (Message ''Client not found''), d\<lparr>clients := tbl\<rparr>)
           | r # rest \<Rightarrow> (Json 200 (Message ''Client deleted successfully''), d\<lparr>clients := tbl\<rparr>)))"

text \<open>
  The export: \<^verbatim>\<open>Object.keys(clients[0]).join(",")\<close> is the list of the column names,
  \<^verbatim>\<open>Object.values(c).join(",")\<close> the row's cells; \<^verbatim>\<open>join\<close> writes \<^verbatim>\<open>null\<close> as the empty string.
\<close>

definition client_keys :: "string list" where
  "client_keys =
     [''id'', ''first_name'', ''last_name'', ''email'', ''phone'', ''address'', ''status'',
      ''additional_details'', ''created_at'', ''updated_at'']"

definition client_cells :: "env \<Rightarrow> client \<Rightarrow> string list" where
  "client_cells X c =
     [cli_id c, cli_first_name c, cli_last_name c, cli_email c, cli_phone c, cli_address c,
      cli_status c,
      (case cli_additional_details c of None \<Rightarrow> [] | Some j \<Rightarrow> js_join_cell X j),
      cli_created_at c, cli_updated_at c]"

definition get_clients_export :: "env \<Rightarrow> db \<Rightarrow> jwt_payload \<Rightarrow> response" where
  "get_clients_export X d user =
     (if pl_role user \<noteq> ''admin'' \<and> pl_role user \<noteq> ''support''
      then Json 403 (Message ''Forbidden'')
      else (case clients d of
              [] \<Rightarrow> Json 404 (Message ''No clients found for export'')
            | c # cs \<Rightarrow>
                SendCsv (js_join '','' client_keys @ [CHR 0x0A] @
                         js_join [CHR 0x0A] (map (\<lambda>r. js_join '','' (client_cells X r)) (c # cs)))))"

subsection \<open>Routing of GET requests\<close>

text \<open>
  Express tries the routes in the order in which server.ts registers them and runs the
  first one whose path matches; every handler of server.ts answers without calling
  \<^verbatim>\<open>next()\<close>, so no later route sees the request. A path is the list of its segments; a
  parameter such as \<^verbatim>\<open>:id\<close> matches any non-empty segment. \<open>get_routes\<close> lists the
  \<^verbatim>\<open>app.get\<close> registrations down to \<^verbatim>\<open>/api/clients/export\<close> (lines 211, 240, 341, 367
  and 475 of server.ts); \<open>None\<close> says that none of them matches and the registrations
  further down are tried.
\<close>

datatype segment = Lit string | Param

datatype endpoint =
    Users_list
  | Users_by_id
  | Clients_list
  | Clients_by_id
  | Clients_export

fun match_path :: "segment list \<Rightarrow> string list \<Rightarrow> string list option" where
  "match_path [] [] = Some []"
| "match_path (Lit s # ps) (x # xs) = (if x = s then match_path ps xs else None)"
| "match_path (Param # ps) (x # xs) =
     (if x = [] then None else map_option ((#) x) (match_path ps xs))"
| "match_path ps xs = None"

definition get_routes :: "(segment list \<times> endpoint) list" where
  "get_routes =
     [([Lit ''api'', Lit ''users''], Users_list),
      ([Lit ''api'', Lit ''users'', Param], Users_by_id),
      ([Lit ''api'', Lit ''clients''], Clients_list),
      ([Lit ''api'', Lit ''clients'', Param], Clients_by_id),
      ([Lit ''api'', Lit ''clients'', Lit ''export''], Clients_export)]"

fun first_match :: "(segment list \<times> endpoint) list \<Rightarrow> string list \<Rightarrow> (endpoint \<times> string list) option" where
  "first_match [] path = None"
| "first_match ((pat, ep) # routes) path =
     (case match_path pat path of
        Some params \<Rightarrow> Some (ep, params)
      | None \<Rightarrow> first_match routes path)"

definition app_get ::
  "env \<Rightarrow> nat \<Rightarrow> db \<Rightarrow> string option \<Rightarrow> string list \<Rightarrow> js_object \<Rightarrow> response option" where
  "app_get X now d authHeader path query =
     (case first_match get_routes path of
        None \<Rightarrow> None
      | Some (ep, params) \<Rightarrow>
          Some (guarded X now authHeader id
                  (\<lambda>user. case ep of
                     Users_list \<Rightarrow> get_users X d user query
                   | Users_by_id \<Rightarrow> get_users_id d (hd params)
                   | Clients_list \<Rightarrow> get_clients X d query
                   | Clients_by_id \<Rightarrow> get_clients_id d (hd params)
                   | Clients_export \<Rightarrow> get_clients_export X d user)))"

subsection \<open>Property interests, communication logs and client documents\<close>

record update_interest_input =
  uii_id :: string
  uii_client_id :: "string option"
  uii_property_type :: "string option"
  uii_preferred_location :: "string option"
  uii_price_min :: "rat option option"
  uii_price_max :: "rat option option"
  uii_additional_notes :: "string option option"

definition updateClientPropertyInterestInputSchema :: "js_object \<Rightarrow> error + update_interest_input" where
  "updateClientPropertyInterestInputSchema obj =
     (let p0 = Inr (\<lambda>i c t l lo hi n.
                 \<lparr>uii_id = i, uii_client_id = c, uii_property_type = t,
                  uii_preferred_location = l, uii_price_min = lo, uii_price_max = hi,
                  uii_additional_notes = n\<rparr>);
          p1 = zod_field p0 (z_string obj ''id'');
          p2 = zod_field p1 (z_string_optional obj ''client_id'');
          p3 = zod_field p2 (z_string_min1_optional obj ''property_type'');
          p4 = zod_field p3 (z_string_min1_optional obj ''preferred_location'');
          p5 = zod_field p4 (z_number_nullable_optional obj ''price_min'');
          p6 = zod_field p5 (z_number_nullable_optional obj ''price_max'');
          p7 = zod_field p6 (z_string_nullable_optional obj ''additional_notes'')
      in zod_parse p7)"

datatype interest_set =
    Cpi_property_type string
  | Cpi_preferred_location string
  | Cpi_price_min "rat option"
  | Cpi_price_max "rat option"
  | Cpi_additional_notes "string option"

fun interest_assign :: "interest_set \<Rightarrow> error + (client_property_interest \<Rightarrow> client_property_interest)" where
  "interest_assign (Cpi_property_type s) = Inr (\<lambda>r. r\<lparr>cpi_property_type := s\<rparr>)"
| "interest_assign (Cpi_preferred_location s) = Inr (\<lambda>r. r\<lparr>cpi_preferred_location := s\<rparr>)"
| "interest_assign (Cpi_price_min v) = Inr (\<lambda>r. r\<lparr>cpi_price_min := v\<rparr>)"
| "interest_assign (Cpi_price_max v) = Inr (\<lambda>r. r\<lparr>cpi_price_max := v\<rparr>)"
| "interest_assign (Cpi_additional_notes v) = Inr (\<lambda>r. r\<lparr>cpi_additional_notes := v\<rparr>)"

definition interest_fields :: "update_interest_input \<Rightarrow> interest_set list" where
  "interest_fields parsed =
     if_truthy (uii_property_type parsed) Cpi_property_type @
     if_truthy (uii_preferred_location parsed) Cpi_preferred_location @
     if_in (uii_price_min parsed) Cpi_price_min @
     if_in (uii_price_max parsed) Cpi_price_max @
     if_in (uii_additional_notes parsed) Cpi_additional_notes"

definition put_client_property_interests_id :: "db \<Rightarrow> string \<Rightarrow> js_object \<Rightarrow> response \<times> db" where
  "put_client_property_interests_id d pid body =
     (case updateClientPropertyInterestInputSchema (with_id pid body) of
        Inl err \<Rightarrow> (Json 400 (Failure err), d)
      | Inr parsed \<Rightarrow>
          (case sql_update interest_assign cpi_id (client_property_interests d)
                  (interest_fields parsed) pid of
             Inl err \<Rightarrow> (Json 400 (Failure err), d)
           | Inr (rows, tbl) \<Rightarrow>
               (case rows of
                  [] \<Rightarrow> (Json 404 (Message ''Record not found''),
                         d\<lparr>client_property_interests := tbl\<rparr>)
                | r # rest \<Rightarrow> (Json 200 (Entity (InterestRow r)),
                              d\<lparr>client_property_interests := tbl\<rparr>))))"

record update_log_input =
  uli_id :: string
  uli_client_id :: "string option"
  uli_user_id :: "string option"
  uli_communication_type :: "string option"
  uli_note :: "string option"
  uli_follow_up_flag :: "bool option"
  uli_timestamp :: "string option"

definition updateCommunicationLogInputSchema :: "env \<Rightarrow> js_object \<Rightarrow> error + update_log_input" where
  "updateCommunicationLogInputSchema X obj =
     (let p0 = Inr (\<lambda>i c u t n f ts.
                 \<lparr>uli_id = i, uli_client_id = c, uli_user_id = u, uli_communication_type = t,
                  uli_note = n, uli_follow_up_flag = f, uli_timestamp = ts\<rparr>);
          p1 = zod_field p0 (z_string obj ''id'');
          p2 = zod_field p1 (z_string_optional obj ''client_id'');
          p3 = zod_field p2 (z_string_optional obj ''user_id'');
          p4 = zod_field p3 (z_string_min1_optional obj ''communication_type'');
          p5 = zod_field p4 (z_string_min1_optional obj ''note'');
          p6 = zod_field p5 (z_boolean_optional obj ''follow_up_flag'');
          p7 = zod_field p6 (z_coerce_date_optional X obj ''timestamp'')
      in zod_parse p7)"

datatype log_set =
    Log_communication_type string
  | Log_note string
  | Log_follow_up_flag bool
  | Log_timestamp string

fun log_assign :: "log_set \<Rightarrow> error + (communication_log \<Rightarrow> communication_log)" where
  "log_assign (Log_communication_type s) = Inr (\<lambda>r. r\<lparr>log_communication_type := s\<rparr>)"
| "log_assign (Log_note s) = Inr (\<lambda>r. r\<lparr>log_note := s\<rparr>)"
| "log_assign (Log_follow_up_flag b) = Inr (\<lambda>r. r\<lparr>log_follow_up_flag := b\<rparr>)"
| "log_assign (Log_timestamp s) = Inr (\<lambda>r. r\<lparr>log_timestamp := s\<rparr>)"

text \<open>
  \<^verbatim>\<open>parsed.timestamp\<close> is a \<^verbatim>\<open>Date\<close> object when present, and every object is truthy; the
  value pushed is \<^verbatim>\<open>new Date(parsed.timestamp).toISOString()\<close>.
\<close>

definition log_fields :: "update_log_input \<Rightarrow> log_set list" where
  "log_fields parsed =
     if_truthy (uli_communication_type parsed) Log_communication_type @
     if_truthy (uli_note parsed) Log_note @
     if_in (uli_follow_up_flag parsed) Log_follow_up_flag @
     if_in (uli_timestamp parsed) Log_timestamp"

definition put_communication_logs_id :: "env \<Rightarrow> db \<Rightarrow> string \<Rightarrow> js_object \<Rightarrow> response \<times> db" where
  "put_communication_logs_id X d pid body =
     (case updateCommunicationLogInputSchema X (with_id pid body) of
        Inl err \<Rightarrow> (Json 400 (Failure err), d)
      | Inr parsed \<Rightarrow>
          (case sql_update log_assign log_id (communication_logs d) (log_fields parsed) pid of
             Inl err \<Rightarrow> (Json 400 (Failure err), d)
           | Inr (rows, tbl) \<Rightarrow>
               (case rows of
                  [] \<Rightarrow> (Json 404 (Message ''Log not found''), d\<lparr>communication_logs := tbl\<rparr>)
                | r # rest \<Rightarrow> (Json 200 (Entity (LogRow r)), d\<lparr>communication_logs := tbl\<rparr>))))"

record update_document_input =
  udi_id :: string
  udi_client_id :: "string option"
  udi_document_name :: "string option"
  udi_document_url :: "string option"
  udi_document_type :: "string option"

definition updateClientDocumentInputSchema :: "env \<Rightarrow> js_object \<Rightarrow> error + update_document_input" where
  "updateClientDocumentInputSchema X obj =
     (let p0 = Inr (\<lambda>i c n u t.
                 \<lparr>udi_id = i, udi_client_id = c, udi_document_name = n, udi_document_url = u,
                  udi_document_type = t\<rparr>);
          p1 = zod_field p0 (z_string obj ''id'');
          p2 = zod_field p1 (z_string_optional obj ''client_id'');
          p3 = zod_field p2 (z_string_min1_optional obj ''document_name'');
          p4 = zod_field p3 (z_string_url_optional X obj ''document_url'');
          p5 = zod_field p4 (z_string_min1_optional obj ''document_type'')
      in zod_parse p5)"

datatype document_set =
    Doc_document_name string
  | Doc_document_url string
  | Doc_document_type string

fun document_assign :: "document_set \<Rightarrow> error + (client_document \<Rightarrow> client_document)" where
  "document_assign (Doc_document_name s) = Inr (\<lambda>r. r\<lparr>doc_document_name := s\<rparr>)"
| "document_assign (Doc_document_url s) = Inr (\<lambda>r. r\<lparr>doc_document_url := s\<rparr>)"
| "document_assign (Doc_document_type s) = Inr (\<lambda>r. r\<lparr>doc_document_type := s\<rparr>)"

definition document_fields :: "update_document_input \<Rightarrow> document_set list" where
  "document_fields parsed =
     if_truthy (udi_document_name parsed) Doc_document_name @
     if_truthy (udi_document_url parsed) Doc_document_url @
     if_truthy (udi_document_type parsed) Doc_document_type"

definition put_client_documents_id :: "env \<Rightarrow> db \<Rightarrow> string \<Rightarrow> js_object \<Rightarrow> response \<times> db" where
  "put_client_documents_id X d pid body =
     (case updateClientDocumentInputSchema X (with_id pid body) of
        Inl err \<Rightarrow> (Json 400 (Failure err), d)
      | Inr parsed \<Rightarrow>
          (case sql_update document_assign doc_id (client_documents d) (document_fields parsed) pid of
             Inl err \<Rightarrow> (Json 400 (Failure err), d)
           | Inr (rows, tbl) \<Rightarrow>
               (case rows of
                  [] \<Rightarrow> (Json 404 (Message ''Document not found''), d\<lparr>client_documents := tbl\<rparr>)
                | r # rest \<Rightarrow> (Json 200 (Entity (DocumentRow r)), d\<lparr>client_documents := tbl\<rparr>))))"

subsection \<open>The other DELETE routes\<close>

definition delete_client_property_interests_id :: "db \<Rightarrow> string \<Rightarrow> response \<times> db" where
  "delete_client_property_interests_id d pid =
     (case sql_delete ''client_property_interests'' cpi_id (client_property_interests d) [] pid of
        Inl err \<Rightarrow> (Json 400 (Failure err), d)
      | Inr (rows, tbl) \<Rightarrow>
          (case rows of
             [] \<Rightarrow> (Json 404 (Message ''Record not found''), d\<lparr>client_property_interests := tbl\<rparr>)
           | r # rest \<Rightarrow> (Json 200 (Message ''Record deleted successfully''),
                         d\<lparr>client_property_interests := tbl\<rparr>)))"

definition delete_properties_id :: "db \<Rightarrow> string \<Rightarrow> response \<times> db" where
  "delete_properties_id d pid =
     (case sql_delete ''properties'' prp_id (properties d) (referencing_property d pid) pid of
        Inl err \<Rightarrow> (Json 400 (Failure err), d)
      | Inr (rows, tbl) \<Rightarrow>
          (case rows of
             [] \<Rightarrow> (Json 404 (Message ''Property not found''), d\<lparr>properties := tbl\<rparr>)
           | r # rest \<Rightarrow> (Json 200 (Message ''Property deleted successfully''), d\<lparr>properties := tbl\<rparr>)))"

definition delete_appointments_id :: "db \<Rightarrow> string \<Rightarrow> response \<times> db" where
  "delete_appointments_id d pid =
     (case sql_delete ''appointments'' apt_id (appointments d) [] pid of
        Inl err \<Rightarrow> (Json 400 (Failure err), d)
      | Inr (rows, tbl) \<Rightarrow>
          (case rows of
             [] \<Rightarrow> (Json 404 (Message ''Appointment not found''), d\<lparr>appointments := tbl\<rparr>)
           | r # rest \<Rightarrow> (Json 200 (Message ''Appointment deleted successfully''),
                         d\<lparr>appointments := tbl\<rparr>)))"

definition delete_communication_logs_id :: "db \<Rightarrow> string \<Rightarrow> response \<times> db" where
  "delete_communication_logs_id d pid =
     (case sql_delete ''communication_logs'' log_id (communication_logs d) [] pid of
        Inl err \<Rightarrow> (Json 400 (Failure err), d)
      | Inr (rows, tbl) \<Rightarrow>
          (case rows of
             [] \<Rightarrow> (Json 404 (Message ''Log not found''), d\<lparr>communication_logs := tbl\<rparr>)
           | r # rest \<Rightarrow> (Json 200 (Message ''Communication log deleted successfully''),
                         d\<lparr>communication_logs := tbl\<rparr>)))"

definition delete_client_documents_id :: "db \<Rightarrow> string \<Rightarrow> response \<times> db" where
  "delete_client_documents_id d pid =
     (case sql_delete ''client_documents'' doc_id (client_documents d) [] pid of
        Inl err \<Rightarrow> (Json 400 (Failure err), d)
      | Inr (rows, tbl) \<Rightarrow>
          (case rows of
             [] \<Rightarrow> (Json 404 (Message ''Document not found''), d\<lparr>client_documents := tbl\<rparr>)
           | r # rest \<Rightarrow> (Json 200 (Message ''Client document deleted successfully''),
                         d\<lparr>client_documents := tbl\<rparr>)))"

section \<open>The partial merge, in the words of the spec\<close>



section \<open>The seed rows of backend/db.sql\<close>

text \<open>
  The rows that db.sql inserts, each under the name \<open>seed_\<close> and its id, and the database
  that holds exactly them. They are the concrete inputs of the examples below.
\<close>

definition seed_u1 :: user where
  "seed_u1 =
     \<lparr>usr_id = ''u1'', usr_username = ''admin_user'',
      usr_email = ''admin@estatehub.co.uk'', usr_password_hash = ''hash_admin'',
      usr_role = ''admin'', usr_created_at = ''2023-10-01T12:00:00'',
      usr_updated_at = ''2023-10-01T12:00:00''\<rparr>"

definition seed_u2 :: user where
  "seed_u2 =
     \<lparr>usr_id = ''u2'', usr_username = ''agent_john'',
      usr_email = ''john.doe@estatehub.co.uk'', usr_password_hash = ''hash_john'',
      usr_role = ''agent'', usr_created_at = ''2023-10-02T09:00:00'',
      usr_updated_at = ''2023-10-02T09:00:00''\<rparr>"

definition seed_u3 :: user where
  "seed_u3 =
     \<lparr>usr_id = ''u3'', usr_username = ''agent_jane'',
      usr_email = ''jane.smith@estatehub.co.uk'', usr_password_hash = ''hash_jane'',
      usr_role = ''agent'', usr_created_at = ''2023-10-03T10:00:00'',
      usr_updated_at = ''2023-10-03T10:00:00''\<rparr>"

definition seed_u4 :: user where
  "seed_u4 =
     \<lparr>usr_id = ''u4'', usr_username = ''support_sam'',
      usr_email = ''sam.support@estatehub.co.uk'', usr_password_hash = ''hash_sam'',
      usr_role = ''support'', usr_created_at = ''2023-10-04T08:30:00'',
      usr_updated_at = ''2023-10-04T08:30:00''\<rparr>"

definition seed_u5 :: user where
  "seed_u5 =
     \<lparr>usr_id = ''u5'', usr_username = ''manager_mike'',
      usr_email = ''mike.manager@estatehub.co.uk'', usr_password_hash = ''hash_mike'',
      usr_role = ''manager'', usr_created_at = ''2023-10-05T11:15:00'',
      usr_updated_at = ''2023-10-05T11:15:00''\<rparr>"

definition seed_c1 :: client where
  "seed_c1 =
     \<lparr>cli_id = ''c1'', cli_first_name = ''Alice'', cli_last_name = ''Wonderland'',
      cli_email = ''alice@sample.co.uk'', cli_phone = ''07123456789'',
      cli_address = ''123 Baker Street, London, UK'', cli_status = ''active'',
      cli_additional_details = Some (JObj [(''preferred_contact'', JStr ''email'')]),
      cli_created_at = ''2023-10-01T13:00:00'', cli_updated_at = ''2023-10-01T13:00:00''\<rparr>"

definition seed_c2 :: client where
  "seed_c2 =
     \<lparr>cli_id = ''c2'', cli_first_name = ''Bob'', cli_last_name = ''Builder'',
      cli_email = ''bob.builder@sample.co.uk'', cli_phone = ''07987654321'',
      cli_address = ''456 High Street, Manchester, UK'', cli_status = ''prospective'',
      cli_additional_details = None, cli_created_at = ''2023-10-02T14:00:00'',
      cli_updated_at = ''2023-10-02T14:00:00''\<rparr>"

definition seed_c3 :: client where
  "seed_c3 =
     \<lparr>cli_id = ''c3'', cli_first_name = ''Charlie'', cli_last_name = ''Chaplin'',
      cli_email = ''charlie.chaplin@sample.co.uk'', cli_phone = ''07894561234'',
      cli_address = ''789 Low Street, Birmingham, UK'', cli_status = ''active'',
      cli_additional_details = Some (JObj [(''interest'', JStr ''commercial'')]),
      cli_created_at = ''2023-10-03T15:00:00'', cli_updated_at = ''2023-10-03T15:00:00''\<rparr>"

definition seed_cpi1 :: client_property_interest where
  "seed_cpi1 =
     \<lparr>cpi_id = ''cpi1'', cpi_client_id = ''c1'', cpi_property_type = ''residential'',
      cpi_preferred_location = ''London'', cpi_price_min = Some 500000,
      cpi_price_max = Some 1000000, cpi_additional_notes = Some ''Looking for modern apartment'',
      cpi_created_at = ''2023-10-02T12:00:00''\<rparr>"

definition seed_cpi2 :: client_property_interest where
  "seed_cpi2 =
     \<lparr>cpi_id = ''cpi2'', cpi_client_id = ''c2'', cpi_property_type = ''commercial'',
      cpi_preferred_location = ''Manchester'', cpi_price_min = Some 200000,
      cpi_price_max = Some 500000, cpi_additional_notes = Some ''Need space for small business'',
      cpi_created_at = ''2023-10-03T16:30:00''\<rparr>"

definition seed_p1 :: property where
  "seed_p1 =
     \<lparr>prp_id = ''p1'', prp_address = ''10 Downing Street, London, UK'',
      prp_property_type = ''residential'', prp_price = 750000, prp_status = ''for sale'',
      prp_description = Some ''Historic building with modern amenities'',
      prp_created_at = ''2023-10-04T10:00:00'', prp_updated_at = ''2023-10-04T10:00:00''\<rparr>"

definition seed_p2 :: property where
  "seed_p2 =
     \<lparr>prp_id = ''p2'', prp_address = ''1 King Street, Manchester, UK'',
      prp_property_type = ''commercial'', prp_price = 350000, prp_status = ''sold'',
      prp_description = Some ''Prime location for business'',
      prp_created_at = ''2023-10-05T11:00:00'', prp_updated_at = ''2023-10-05T11:00:00''\<rparr>"

definition seed_a1 :: appointment where
  "seed_a1 =
     \<lparr>apt_id = ''a1'', apt_client_id = ''c1'', apt_property_id = Some ''p1'',
      apt_agent_id = ''u2'', apt_appointment_date = ''2023-10-05'',
      apt_appointment_time = ''14:00'', apt_notes = Some ''Initial viewing appointment'',
      apt_is_confirmed = True, apt_created_at = ''2023-10-04T11:00:00'',
      apt_updated_at = ''2023-10-04T11:00:00''\<rparr>"

definition seed_a2 :: appointment where
  "seed_a2 =
     \<lparr>apt_id = ''a2'', apt_client_id = ''c2'', apt_property_id = None,
      apt_agent_id = ''u3'', apt_appointment_date = ''2023-10-06'',
      apt_appointment_time = ''16:00'', apt_notes = Some ''Discuss property requirements'',
      apt_is_confirmed = False, apt_created_at = ''2023-10-05T12:00:00'',
      apt_updated_at = ''2023-10-05T12:00:00''\<rparr>"

definition seed_cl1 :: communication_log where
  "seed_cl1 =
     \<lparr>log_id = ''cl1'', log_client_id = ''c1'', log_user_id = ''u2'',
      log_communication_type = ''email'', log_note = ''Sent property brochure'',
      log_follow_up_flag = False, log_timestamp = ''2023-10-02T10:00:00''\<rparr>"

definition seed_cl2 :: communication_log where
  "seed_cl2 =
     \<lparr>log_id = ''cl2'', log_client_id = ''c2'', log_user_id = ''u3'',
      log_communication_type = ''call'', log_note = ''Left voicemail regarding appointment'',
      log_follow_up_flag = True, log_timestamp = ''2023-10-03T11:30:00''\<rparr>"

definition seed_cl3 :: communication_log where
  "seed_cl3 =
     \<lparr>log_id = ''cl3'', log_client_id = ''c1'', log_user_id = ''u4'',
      log_communication_type = ''meeting'', log_note = ''Discussed financing options'',
      log_follow_up_flag = True, log_timestamp = ''2023-10-04T09:00:00''\<rparr>"

definition seed_cd1 :: client_document where
  "seed_cd1 =
     \<lparr>doc_id = ''cd1'', doc_client_id = ''c1'', doc_document_name = ''ID Proof'',
      doc_document_url = ''https://picsum.photos/seed/id1/300/200'', doc_document_type = ''id'',
      doc_uploaded_at = ''2023-10-02T14:00:00''\<rparr>"

definition seed_cd2 :: client_document where
  "seed_cd2 =
     \<lparr>doc_id = ''cd2'', doc_client_id = ''c2'', doc_document_name = ''Contract'',
      doc_document_url = ''https://picsum.photos/seed/contract1/300/200'',
      doc_document_type = ''contract'', doc_uploaded_at = ''2023-10-03T15:30:00''\<rparr>"

definition seed_us1 :: user_setting where
  "seed_us1 =
     \<lparr>ust_id = ''us1'', ust_user_id = ''u1'',
      ust_dashboard_preferences = Some (JObj [(''theme'', JStr ''dark''), (''layout'', JStr ''grid'')]),
      ust_notification_settings = Some (JObj [(''email'', JBool True), (''in_app'', JBool True)]),
      ust_configuration = Some (JObj [(''language'', JStr ''en-UK'')]),
      ust_updated_at = ''2023-10-01T14:00:00''\<rparr>"

definition seed_us2 :: user_setting where
  "seed_us2 =
     \<lparr>ust_id = ''us2'', ust_user_id = ''u2'',
      ust_dashboard_preferences = Some (JObj [(''theme'', JStr ''light''), (''layout'', JStr ''list'')]),
      ust_notification_settings = Some (JObj [(''email'', JBool False), (''in_app'', JBool True)]),
      ust_configuration = Some (JObj [(''language'', JStr ''en-UK'')]),
      ust_updated_at = ''2023-10-02T15:00:00''\<rparr>"

definition seed :: db where
  "seed =
    \<lparr>users = [seed_u1, seed_u2, seed_u3, seed_u4, seed_u5],
     clients = [seed_c1, seed_c2, seed_c3],
     client_property_interests = [seed_cpi1, seed_cpi2],
     properties = [seed_p1, seed_p2],
     appointments = [seed_a1, seed_a2],
     communication_logs = [seed_cl1, seed_cl2, seed_cl3],
     client_documents = [seed_cd1, seed_cd2],
     user_settings = [seed_us1, seed_us2]\<rparr>"

definition empty_db :: db where
  "empty_db =
    \<lparr>users = [], clients = [], client_property_interests = [], properties = [],
     appointments = [], communication_logs = [], client_documents = [], user_settings = []\<rparr>"


text \<open>
  A stand-in for the libraries, to run the handlers on concrete requests: its tokens are
  \<^verbatim>\<open>jwt.<id>.<role>\<close> and the token \<^verbatim>\<open>stale\<close> has expired, a password matches the hash
  \<^verbatim>\<open>hash_<password>\<close> (the shape of the seed hashes), and only \<^verbatim>\<open>null\<close> and objects are
  stored in a \<^verbatim>\<open>JSON\<close> column.
\<close>

definition stand_in :: env where
  "stand_in =
    \<lparr>env_JWT_SECRET = None,
     jwt_sign = (\<lambda>p k t. ''jwt.'' @ pl_id p @ ''.'' @ pl_role p),
     jwt_verify = (\<lambda>tok k now.
        case js_split (CHR ''.'') tok of
          [h, i, r] \<Rightarrow> if h = ''jwt'' then Inr \<lparr>pl_id = i, pl_role = r\<rparr> else Inl JsonWebTokenError
        | _ \<Rightarrow> if tok = ''stale'' then Inl TokenExpiredError else Inl JsonWebTokenError),
     bcrypt_compare = (\<lambda>pw h. h = ''hash_'' @ pw),
     zod_email = (\<lambda>s. CHR ''@'' \<in> set s),
     zod_url = (\<lambda>s. take 4 s = ''http''),
     js_date_iso = (\<lambda>v. case v of JStr s \<Rightarrow> Some s | _ \<Rightarrow> None),
     pg_json = (\<lambda>v. case v of JNull \<Rightarrow> Inr None | JObj kv \<Rightarrow> Inr (Some (JObj kv))
                      | _ \<Rightarrow> Inl PgInvalidJson),
     pg_ilike = (\<lambda>s pat. True),
     js_join_cell = (\<lambda>j. ''[object Object]'')\<rparr>"

section \<open>Lookups and deletions\<close>

lemma find_filter: "find P xs = Some x \<Longrightarrow> \<exists>rest. filter P xs = x # rest"
  by (induction xs) (auto split: if_splits)


lemma case_filter_find:
  "(case filter P xs of [] \<Rightarrow> a | r # rest \<Rightarrow> b r) = (case find P xs of None \<Rightarrow> a | Some r \<Rightarrow> b r)"
  by (induction xs) auto

lemma filter_out_then_find: "filter (\<lambda>r. key r = pid) (filter (\<lambda>r. key r \<noteq> pid) rows) = []"
  by (induction rows) auto

lemma sql_delete_free:
  "sql_delete tbl key rows [] pid =
     Inr (filter (\<lambda>r. key r = pid) rows, filter (\<lambda>r. key r \<noteq> pid) rows)"
  by (simp add: sql_delete_def)

lemma sql_delete_blocked:
  "find (\<lambda>r. key r = pid) rows = Some x \<Longrightarrow>
   sql_delete tbl key rows (child # others) pid = Inl (PgForeignKeyViolation tbl child)"
  by (auto simp: sql_delete_def dest: find_filter)

section \<open>What the client schema accepts\<close>

lemma zod_field_InrE:
  assumes "zod_field acc r = Inr v"
  obtains f x where "acc = Inr f" and "r = Inr x" and "v = f x"
  using assms by (cases acc; cases r) simp_all

lemma zod_field_keeps_issue:
  "\<exists>js. acc = Inl js \<and> i \<in> set js \<Longrightarrow> \<exists>js. zod_field acc r = Inl js \<and> i \<in> set js"
  by (cases r) auto

lemma zod_field_new_issue: "\<exists>js. zod_field acc (Inl [i]) = Inl js \<and> i \<in> set js"
  by (cases acc) auto

lemma zod_parse_issue:
  "\<exists>js. r = Inl js \<and> i \<in> set js \<Longrightarrow> \<exists>js. zod_parse r = Inl (ZodError js) \<and> i \<in> set js"
  by (auto simp: zod_parse_def)

lemma map_of_with_id: "k \<noteq> ''id'' \<Longrightarrow> map_of (with_id pid body) k = map_of body k"
  by (simp add: with_id_def map_add_def split: option.splits)



lemma min1_optional_empty:
  "map_of obj k = Some (JStr []) \<Longrightarrow> z_string_min1_optional obj k = Inl [Issue k ''too_small'']"
  by (simp add: z_string_min1_optional_def)

lemma email_optional_empty:
  "map_of obj k = Some (JStr []) \<Longrightarrow> \<not> zod_email X [] \<Longrightarrow>
   z_string_email_optional X obj k = Inl [Issue k ''invalid_string'']"
  by (simp add: z_string_email_optional_def)


section \<open>What the update stores\<close>












section \<open>Updating a client (claim C1)\<close>

lemma client_fields_not_empty: "client_fields p now \<noteq> []"
  by (simp add: client_fields_def)


lemma put_client_stores:
  assumes "bind_all (client_assign X) (client_fields p now) = Inr g"
    and "updateClientInputSchema X (with_id pid body) = Inr p"
    and "find (\<lambda>c. cli_id c = pid) (clients d) = Some r"
  shows "put_clients_id X now d pid body =
    (Json 200 (Entity (ClientRow (g r))),
     d\<lparr>clients := map (\<lambda>c. if cli_id c = pid then g c else c) (clients d)\<rparr>)"
proof -
  obtain rest where "filter (\<lambda>c. cli_id c = pid) (clients d) = r # rest"
    using find_filter [OF assms(3)] by blast
  then show ?thesis
    using assms(1,2) by (simp add: put_clients_id_def sql_update_def client_fields_not_empty)
qed





lemma seed_find_c2: "find (\<lambda>c. cli_id c = ''c2'') (clients seed) = Some seed_c2"
  by (simp add: seed_def seed_c1_def seed_c2_def)

lemma seed_clients_update_c2:
  "map (\<lambda>c. if cli_id c = ''c2'' then g c else c) (clients seed) = [seed_c1, g seed_c2, seed_c3]"
  by (simp add: seed_def seed_c1_def seed_c2_def seed_c3_def)







section \<open>Authentication (claim C2)\<close>

lemma token_of_missing: "token_of None = None"
  by (simp add: token_of_def)

lemma stand_in_admin_token:
  "authenticateToken stand_in now (Some ''Bearer jwt.u1.admin'') =
     Inr \<lparr>pl_id = ''u1'', pl_role = ''admin''\<rparr>"
  by (simp add: authenticateToken_def token_of_def stand_in_def)

text \<open>
  Claim C2, as the code has it: on every route behind \<open>authenticateToken\<close>, a request with no
  token (no header, or a header without a second part) is answered with status 401, and a
  request whose token \<^verbatim>\<open>jwt.verify\<close> rejects, whether invalid or expired, is answered with
  status 403. In both cases the response is the middleware's and does not depend on the
  route's handler, which is not called.
\<close>

theorem authenticateToken_status:
  "guarded X now None sent handler = sent (SendStatus 401) \<and>
   (token_of h = None \<longrightarrow> guarded X now h sent handler = sent (SendStatus 401)) \<and>
   (\<forall>t e. token_of h = Some t \<and> jwt_verify X t (JWT_SECRET X) now = Inl e \<longrightarrow>
      guarded X now h sent handler = sent (SendStatus 403))"
  by (simp add: guarded_def authenticateToken_def token_of_def)

text \<open>
  The theorem at four requests: no header, a header with the scheme only, the expired token
  and a forged token of the stand-in library.
\<close>

theorem authenticateToken_status_witness:
  "guarded stand_in 0 None id (\<lambda>user. Json 200 (Message ''reached'')) = SendStatus 401 \<and>
   guarded stand_in 0 (Some ''Bearer'') id (\<lambda>user. Json 200 (Message ''reached'')) = SendStatus 401 \<and>
   guarded stand_in 0 (Some ''Bearer stale'') id (\<lambda>user. Json 200 (Message ''reached'')) = SendStatus 403 \<and>
   guarded stand_in 0 (Some ''Bearer forged'') id (\<lambda>user. Json 200 (Message ''reached'')) = SendStatus 403"
proof -
  let ?handler = "\<lambda>user::jwt_payload. Json 200 (Message ''reached'')"
  have a: "token_of (Some ''Bearer'') = None"
    by (simp add: token_of_def)
  have b: "token_of (Some ''Bearer stale'') = Some ''stale'' \<and>
           jwt_verify stand_in ''stale'' (JWT_SECRET stand_in) 0 = Inl TokenExpiredError"
    by (simp add: token_of_def stand_in_def)
  have c: "token_of (Some ''Bearer forged'') = Some ''forged'' \<and>
           jwt_verify stand_in ''forged'' (JWT_SECRET stand_in) 0 = Inl JsonWebTokenError"
    by (simp add: token_of_def stand_in_def)
  show ?thesis
    using a b c
      authenticateToken_status [of stand_in 0 id ?handler "Some ''Bearer''"]
      authenticateToken_status [of stand_in 0 id ?handler "Some ''Bearer stale''"]
      authenticateToken_status [of stand_in 0 id ?handler "Some ''Bearer forged''"]
    by simp
qed

text \<open>
  Claim C2 as the spec states it fails: an expired token and a forged token are both
  answered with 403, not 401.
\<close>

theorem expired_token_is_403:
  "jwt_verify stand_in ''stale'' (JWT_SECRET stand_in) 0 = Inl TokenExpiredError \<and>
   authenticateToken stand_in 0 (Some ''Bearer stale'') = Inl (SendStatus 403) \<and>
   jwt_verify stand_in ''forged'' (JWT_SECRET stand_in) 0 = Inl JsonWebTokenError \<and>
   authenticateToken stand_in 0 (Some ''Bearer forged'') = Inl (SendStatus 403)"
  by (simp add: authenticateToken_def token_of_def stand_in_def)

section \<open>Reading users (claim C3)\<close>

lemma users_id_first_match:
  "pid \<noteq> [] \<Longrightarrow> first_match get_routes [''api'', ''users'', pid] = Some (Users_by_id, [pid])"
  by (simp add: get_routes_def)

text \<open>
  Claim C3, as the code has it: the list \<^verbatim>\<open>GET /api/users\<close> answers 403 to every caller whose
  role is neither admin nor manager, and answers an admin or a manager whose query passes the
  schema with the list. The single read \<^verbatim>\<open>GET /api/users/:id\<close> has no role check: for every
  authenticated caller, whatever the role, it answers 200 with the record when a user with
  that id exists and 404 otherwise.
\<close>

theorem users_read_access:
  "(pl_role user \<noteq> ''admin'' \<and> pl_role user \<noteq> ''manager'' \<longrightarrow>
      get_users X d user q = Json 403 (Message ''Forbidden'')) \<and>
   ((pl_role user = ''admin'' \<or> pl_role user = ''manager'') \<and> searchUserInputSchema q = Inr p \<longrightarrow>
      (\<exists>rows. get_users X d user q = Json 200 (Entities rows))) \<and>
   (pid \<noteq> [] \<and> authenticateToken X now h = Inr user \<longrightarrow>
      app_get X now d h [''api'', ''users'', pid] q =
        Some (case find (\<lambda>u. usr_id u = pid) (users d) of
                None \<Rightarrow> Json 404 (Message ''User not found'')
              | Some u \<Rightarrow> Json 200 (Entity (UserRow u))))"
proof -
  have list_denied: "get_users X d user q = Json 403 (Message ''Forbidden'')"
    if "pl_role user \<noteq> ''admin'' \<and> pl_role user \<noteq> ''manager''"
    using that by (simp add: get_users_def)
  have list_allowed: "\<exists>rows. get_users X d user q = Json 200 (Entities rows)"
    if "pl_role user = ''admin'' \<or> pl_role user = ''manager''" and "searchUserInputSchema q = Inr p"
    using that by (auto simp: get_users_def Let_def)
  have read: "app_get X now d h [''api'', ''users'', pid] q =
        Some (case find (\<lambda>u. usr_id u = pid) (users d) of
                None \<Rightarrow> Json 404 (Message ''User not found'')
              | Some u \<Rightarrow> Json 200 (Entity (UserRow u)))"
    if "pid \<noteq> []" and "authenticateToken X now h = Inr user"
    using that
    by (simp add: app_get_def users_id_first_match guarded_def get_users_id_def case_filter_find)
  show ?thesis
    using list_denied list_allowed read by blast
qed

lemma stand_in_agent_token:
  "authenticateToken stand_in now (Some ''Bearer jwt.u2.agent'') =
     Inr \<lparr>pl_id = ''u2'', pl_role = ''agent''\<rparr>"
  by (simp add: authenticateToken_def token_of_def stand_in_def)

lemma seed_find_u1: "find (\<lambda>u. usr_id u = ''u1'') (users seed) = Some seed_u1"
  by (simp add: seed_def seed_u1_def)

lemma seed_find_nobody: "find (\<lambda>u. usr_id u = ''nobody'') (users seed) = None"
  by (simp add: seed_def seed_u1_def seed_u2_def seed_u3_def seed_u4_def seed_u5_def)

text \<open>
  The theorem on the seed rows: an agent is refused the list, a manager gets it, and the
  agent reads the admin's record.
\<close>

theorem users_read_access_witness:
  "get_users stand_in seed \<lparr>pl_id = ''u2'', pl_role = ''agent''\<rparr> [] = Json 403 (Message ''Forbidden'') \<and>
   (\<exists>rows. get_users stand_in seed \<lparr>pl_id = ''u5'', pl_role = ''manager''\<rparr> [] = Json 200 (Entities rows)) \<and>
   app_get stand_in 0 seed (Some ''Bearer jwt.u2.agent'') [''api'', ''users'', ''u1''] [] =
     Some (Json 200 (Entity (UserRow seed_u1)))"
proof -
  have parsed: "searchUserInputSchema [] =
      Inr \<lparr>si_query = None, si_limit = 10, si_offset = 0, si_sort_by = ''created_at'',
           si_sort_order = ''desc''\<rparr>"
    by (simp add: searchUserInputSchema_def searchInputSchema_def z_string_optional_def
        z_int_positive_default_def z_int_nonnegative_default_def z_enum_default_def zod_parse_def)
  show ?thesis
    using parsed stand_in_agent_token [of 0] seed_find_u1
      users_read_access [of "\<lparr>pl_id = ''u2'', pl_role = ''agent''\<rparr>" stand_in seed "[]" _ "''u1''" 0
        "Some ''Bearer jwt.u2.agent''"]
      users_read_access [of "\<lparr>pl_id = ''u5'', pl_role = ''manager''\<rparr>" stand_in seed "[]" _ "''u1''" 0 None]
    by simp
qed

text \<open>
  Claim C3 as the spec states it fails: a caller with role agent reads the record of user
  \<^verbatim>\<open>u1\<close> with status 200, and gets 404 for an id that does not exist, so the answer also
  tells whether the user exists.
\<close>

theorem any_role_reads_a_user:
  "app_get stand_in 0 seed (Some ''Bearer jwt.u2.agent'') [''api'', ''users'', ''u1''] [] =
     Some (Json 200 (Entity (UserRow seed_u1))) \<and>
   app_get stand_in 0 seed (Some ''Bearer jwt.u2.agent'') [''api'', ''users'', ''nobody''] [] =
     Some (Json 404 (Message ''User not found''))"
  by (simp add: app_get_def users_id_first_match guarded_def stand_in_agent_token get_users_id_def
      case_filter_find seed_find_u1 seed_find_nobody)

section \<open>Deleting a user (claim C4)\<close>

lemma referencing_user_none:
  "\<not> list_ex (\<lambda>a. apt_agent_id a = pid) (appointments d) \<Longrightarrow>
   \<not> list_ex (\<lambda>l. log_user_id l = pid) (communication_logs d) \<Longrightarrow>
   \<not> list_ex (\<lambda>s. ust_user_id s = pid) (user_settings d) \<Longrightarrow>
   referencing_user d pid = []"
  by (simp add: referencing_user_def)

lemma referencing_user_some:
  "list_ex (\<lambda>a. apt_agent_id a = pid) (appointments d) \<or>
   list_ex (\<lambda>l. log_user_id l = pid) (communication_logs d) \<or>
   list_ex (\<lambda>s. ust_user_id s = pid) (user_settings d) \<Longrightarrow>
   \<exists>child others. referencing_user d pid = child # others"
  by (auto simp: referencing_user_def)

text \<open>
  Claim C4, as the code has it: \<^verbatim>\<open>DELETE /api/users/:id\<close> answers 403 to every caller whose
  role is not admin (a support caller among them). For an admin and an existing user that
  no appointment, communication log or settings row references, it removes the user and
  answers 200 with the fixed message \<^verbatim>\<open>User deleted successfully\<close>, and a \<^verbatim>\<open>GET\<close> on that id
  then answers 404. For an admin and an existing user that such a row references, the
  foreign key makes the statement fail: the answer is 400 and nothing is removed.
\<close>

theorem delete_user_outcomes:
  "(pl_role user \<noteq> ''admin'' \<longrightarrow>
      delete_users_id d user pid = (Json 403 (Message ''Forbidden''), d)) \<and>
   (pl_role user = ''admin'' \<and> find (\<lambda>u. usr_id u = pid) (users d) = Some u \<and>
    \<not> list_ex (\<lambda>a. apt_agent_id a = pid) (appointments d) \<and>
    \<not> list_ex (\<lambda>l. log_user_id l = pid) (communication_logs d) \<and>
    \<not> list_ex (\<lambda>s. ust_user_id s = pid) (user_settings d) \<longrightarrow>
      delete_users_id d user pid =
        (Json 200 (Message ''User deleted successfully''),
         d\<lparr>users := filter (\<lambda>u. usr_id u \<noteq> pid) (users d)\<rparr>) \<and>
      get_users_id (snd (delete_users_id d user pid)) pid = Json 404 (Message ''User not found'')) \<and>
   (pl_role user = ''admin'' \<and> find (\<lambda>u. usr_id u = pid) (users d) = Some u \<and>
    (list_ex (\<lambda>a. apt_agent_id a = pid) (appointments d) \<or>
     list_ex (\<lambda>l. log_user_id l = pid) (communication_logs d) \<or>
     list_ex (\<lambda>s. ust_user_id s = pid) (user_settings d)) \<longrightarrow>
      (\<exists>child. delete_users_id d user pid =
         (Json 400 (Failure (PgForeignKeyViolation ''users'' child)), d)))"
proof -
  have denied: "delete_users_id d user pid = (Json 403 (Message ''Forbidden''), d)"
    if "pl_role user \<noteq> ''admin''"
    using that by (simp add: delete_users_id_def)
  have removed: "delete_users_id d user pid =
        (Json 200 (Message ''User deleted successfully''),
         d\<lparr>users := filter (\<lambda>u. usr_id u \<noteq> pid) (users d)\<rparr>)"
    if admin: "pl_role user = ''admin''" and found: "find (\<lambda>u. usr_id u = pid) (users d) = Some u"
      and free: "referencing_user d pid = []"
  proof -
    obtain rest where "filter (\<lambda>u. usr_id u = pid) (users d) = u # rest"
      using find_filter [OF found] by blast
    then show ?thesis
      using admin free by (simp add: delete_users_id_def sql_delete_free)
  qed
  have gone: "get_users_id (d\<lparr>users := filter (\<lambda>u. usr_id u \<noteq> pid) (users d)\<rparr>) pid =
      Json 404 (Message ''User not found'')"
    by (simp add: get_users_id_def filter_out_then_find)
  have blocked: "delete_users_id d user pid =
         (Json 400 (Failure (PgForeignKeyViolation ''users'' child)), d)"
    if "pl_role user = ''admin''" and "find (\<lambda>u. usr_id u = pid) (users d) = Some u"
      and "referencing_user d pid = child # others" for child others
    using that by (simp add: delete_users_id_def sql_delete_blocked)
  show ?thesis
    using denied removed gone blocked referencing_user_none [of pid d]
      referencing_user_some [of pid d]
    by (metis snd_conv)
qed

lemma seed_find_u5: "find (\<lambda>u. usr_id u = ''u5'') (users seed) = Some seed_u5"
  by (simp add: seed_def seed_u1_def seed_u2_def seed_u3_def seed_u4_def seed_u5_def)

lemma seed_find_u2: "find (\<lambda>u. usr_id u = ''u2'') (users seed) = Some seed_u2"
  by (simp add: seed_def seed_u1_def seed_u2_def)

lemma seed_u5_unreferenced:
  "\<not> list_ex (\<lambda>a. apt_agent_id a = ''u5'') (appointments seed) \<and>
   \<not> list_ex (\<lambda>l. log_user_id l = ''u5'') (communication_logs seed) \<and>
   \<not> list_ex (\<lambda>s. ust_user_id s = ''u5'') (user_settings seed)"
  by (simp add: seed_def seed_a1_def seed_a2_def seed_cl1_def seed_cl2_def seed_cl3_def
      seed_us1_def seed_us2_def)

lemma seed_u2_referenced: "list_ex (\<lambda>a. apt_agent_id a = ''u2'') (appointments seed)"
  by (simp add: seed_def seed_a1_def)

lemma seed_users_without_u5:
  "filter (\<lambda>u. usr_id u \<noteq> ''u5'') (users seed) = [seed_u1, seed_u2, seed_u3, seed_u4]"
  by (simp add: seed_def seed_u1_def seed_u2_def seed_u3_def seed_u4_def seed_u5_def)

text \<open>
  The theorem on the seed rows: support is refused, the admin deletes the manager \<^verbatim>\<open>u5\<close>
  (whom nothing references) and cannot delete the agent \<^verbatim>\<open>u2\<close> (who has an appointment).
\<close>

theorem delete_user_outcomes_witness:
  "delete_users_id seed \<lparr>pl_id = ''u4'', pl_role = ''support''\<rparr> ''u5'' =
     (Json 403 (Message ''Forbidden''), seed) \<and>
   delete_users_id seed \<lparr>pl_id = ''u1'', pl_role = ''admin''\<rparr> ''u5'' =
     (Json 200 (Message ''User deleted successfully''),
      seed\<lparr>users := [seed_u1, seed_u2, seed_u3, seed_u4]\<rparr>) \<and>
   get_users_id (snd (delete_users_id seed \<lparr>pl_id = ''u1'', pl_role = ''admin''\<rparr> ''u5'')) ''u5'' =
     Json 404 (Message ''User not found'') \<and>
   (\<exists>child. delete_users_id seed \<lparr>pl_id = ''u1'', pl_role = ''admin''\<rparr> ''u2'' =
      (Json 400 (Failure (PgForeignKeyViolation ''users'' child)), seed))"
  using seed_find_u5 seed_find_u2 seed_u5_unreferenced seed_u2_referenced seed_users_without_u5
    delete_user_outcomes [of "\<lparr>pl_id = ''u4'', pl_role = ''support''\<rparr>" seed "''u5''" seed_u5]
    delete_user_outcomes [of "\<lparr>pl_id = ''u1'', pl_role = ''admin''\<rparr>" seed "''u5''" seed_u5]
    delete_user_outcomes [of "\<lparr>pl_id = ''u1'', pl_role = ''admin''\<rparr>" seed "''u2''" seed_u2]
  by auto

text \<open>
  Claim C4 as the spec states it fails twice on the seed rows: the confirmation for the
  deleted user \<^verbatim>\<open>u5\<close> does not contain the id, and the delete of the existing user \<^verbatim>\<open>u2\<close> by
  an admin is answered with 400.
\<close>

theorem delete_user_message_has_no_id:
  "delete_users_id seed \<lparr>pl_id = ''u1'', pl_role = ''admin''\<rparr> ''u5'' =
     (Json 200 (Message ''User deleted successfully''),
      seed\<lparr>users := [seed_u1, seed_u2, seed_u3, seed_u4]\<rparr>) \<and>
   \<not> sublist ''u5'' ''User deleted successfully'' \<and>
   delete_users_id seed \<lparr>pl_id = ''u1'', pl_role = ''admin''\<rparr> ''u2'' =
     (Json 400 (Failure (PgForeignKeyViolation ''users'' ''appointments'')), seed)"
proof -
  have free: "referencing_user seed ''u5'' = []"
    using seed_u5_unreferenced by (simp add: referencing_user_def)
  obtain rest where hit: "filter (\<lambda>u. usr_id u = ''u5'') (users seed) = seed_u5 # rest"
    using find_filter [OF seed_find_u5] by blast
  have first: "delete_users_id seed \<lparr>pl_id = ''u1'', pl_role = ''admin''\<rparr> ''u5'' =
     (Json 200 (Message ''User deleted successfully''),
      seed\<lparr>users := [seed_u1, seed_u2, seed_u3, seed_u4]\<rparr>)"
    by (simp add: delete_users_id_def sql_delete_free free hit seed_users_without_u5)
  have "\<not> set ''u5'' \<subseteq> set ''User deleted successfully''"
    by simp
  then have second: "\<not> sublist ''u5'' ''User deleted successfully''"
    using set_mono_sublist by blast
  have held: "referencing_user seed ''u2'' = ''appointments'' # [''communication_logs'', ''user_settings'']"
    by (simp add: referencing_user_def seed_def seed_a1_def seed_a2_def seed_cl1_def seed_cl2_def
        seed_cl3_def seed_us1_def seed_us2_def)
  have third: "delete_users_id seed \<lparr>pl_id = ''u1'', pl_role = ''admin''\<rparr> ''u2'' =
     (Json 400 (Failure (PgForeignKeyViolation ''users'' ''appointments'')), seed)"
    by (simp add: delete_users_id_def held sql_delete_blocked [OF seed_find_u2])
  show ?thesis
    using first second third by simp
qed

section \<open>Deleting rows that other rows reference (claim C5)\<close>

lemma referencing_client_none:
  "\<not> list_ex (\<lambda>i. cpi_client_id i = pid) (client_property_interests d) \<Longrightarrow>
   \<not> list_ex (\<lambda>a. apt_client_id a = pid) (appointments d) \<Longrightarrow>
   \<not> list_ex (\<lambda>l. log_client_id l = pid) (communication_logs d) \<Longrightarrow>
   \<not> list_ex (\<lambda>x. doc_client_id x = pid) (client_documents d) \<Longrightarrow>
   referencing_client d pid = []"
  by (simp add: referencing_client_def)

lemma referencing_client_some:
  "list_ex (\<lambda>i. cpi_client_id i = pid) (client_property_interests d) \<or>
   list_ex (\<lambda>a. apt_client_id a = pid) (appointments d) \<or>
   list_ex (\<lambda>l. log_client_id l = pid) (communication_logs d) \<or>
   list_ex (\<lambda>x. doc_client_id x = pid) (client_documents d) \<Longrightarrow>
   \<exists>child others. referencing_client d pid = child # others"
  by (auto simp: referencing_client_def)

lemma delete_client_removed:
  assumes "find (\<lambda>c. cli_id c = pid) (clients d) = Some c" and "referencing_client d pid = []"
  shows "delete_clients_id d pid =
    (Json 200 (Message ''Client deleted successfully''),
     d\<lparr>clients := filter (\<lambda>c. cli_id c \<noteq> pid) (clients d)\<rparr>)"
proof -
  obtain rest where "filter (\<lambda>c. cli_id c = pid) (clients d) = c # rest"
    using find_filter [OF assms(1)] by blast
  then show ?thesis
    using assms(2) by (simp add: delete_clients_id_def sql_delete_free)
qed

lemma delete_client_blocked:
  assumes "find (\<lambda>c. cli_id c = pid) (clients d) = Some c"
    and "referencing_client d pid = child # others"
  shows "delete_clients_id d pid = (Json 400 (Failure (PgForeignKeyViolation ''clients'' child)), d)"
  using assms by (simp add: delete_clients_id_def sql_delete_blocked)

lemma delete_property_removed:
  assumes "find (\<lambda>p. prp_id p = pid) (properties d) = Some p"
    and "\<not> list_ex (\<lambda>a. apt_property_id a = Some pid) (appointments d)"
  shows "delete_properties_id d pid =
    (Json 200 (Message ''Property deleted successfully''),
     d\<lparr>properties := filter (\<lambda>p. prp_id p \<noteq> pid) (properties d)\<rparr>)"
proof -
  obtain rest where "filter (\<lambda>p. prp_id p = pid) (properties d) = p # rest"
    using find_filter [OF assms(1)] by blast
  then show ?thesis
    using assms(2) by (simp add: delete_properties_id_def referencing_property_def sql_delete_free)
qed

lemma delete_property_blocked:
  assumes "find (\<lambda>p. prp_id p = pid) (properties d) = Some p"
    and "list_ex (\<lambda>a. apt_property_id a = Some pid) (appointments d)"
  shows "delete_properties_id d pid =
    (Json 400 (Failure (PgForeignKeyViolation ''properties'' ''appointments'')), d)"
  using assms by (simp add: delete_properties_id_def referencing_property_def sql_delete_blocked)

lemma delete_interest_removed:
  assumes "find (\<lambda>i. cpi_id i = pid) (client_property_interests d) = Some i"
  shows "delete_client_property_interests_id d pid =
    (Json 200 (Message ''Record deleted successfully''),
     d\<lparr>client_property_interests := filter (\<lambda>i. cpi_id i \<noteq> pid) (client_property_interests d)\<rparr>)"
proof -
  obtain rest where "filter (\<lambda>i. cpi_id i = pid) (client_property_interests d) = i # rest"
    using find_filter [OF assms] by blast
  then show ?thesis
    by (simp add: delete_client_property_interests_id_def sql_delete_free)
qed

lemma delete_appointment_removed:
  assumes "find (\<lambda>a. apt_id a = pid) (appointments d) = Some a"
  shows "delete_appointments_id d pid =
    (Json 200 (Message ''Appointment deleted successfully''),
     d\<lparr>appointments := filter (\<lambda>a. apt_id a \<noteq> pid) (appointments d)\<rparr>)"
proof -
  obtain rest where "filter (\<lambda>a. apt_id a = pid) (appointments d) = a # rest"
    using find_filter [OF assms] by blast
  then show ?thesis
    by (simp add: delete_appointments_id_def sql_delete_free)
qed

lemma delete_log_removed:
  assumes "find (\<lambda>l. log_id l = pid) (communication_logs d) = Some l"
  shows "delete_communication_logs_id d pid =
    (Json 200 (Message ''Communication log deleted successfully''),
     d\<lparr>communication_logs := filter (\<lambda>l. log_id l \<noteq> pid) (communication_logs d)\<rparr>)"
proof -
  obtain rest where "filter (\<lambda>l. log_id l = pid) (communication_logs d) = l # rest"
    using find_filter [OF assms] by blast
  then show ?thesis
    by (simp add: delete_communication_logs_id_def sql_delete_free)
qed

lemma delete_document_removed:
  assumes "find (\<lambda>x. doc_id x = pid) (client_documents d) = Some x"
  shows "delete_client_documents_id d pid =
    (Json 200 (Message ''Client document deleted successfully''),
     d\<lparr>client_documents := filter (\<lambda>x. doc_id x \<noteq> pid) (client_documents d)\<rparr>)"
proof -
  obtain rest where "filter (\<lambda>x. doc_id x = pid) (client_documents d) = x # rest"
    using find_filter [OF assms] by blast
  then show ?thesis
    by (simp add: delete_client_documents_id_def sql_delete_free)
qed

text \<open>
  Claim C5, as the code has it. No \<^verbatim>\<open>DELETE\<close> route cascades: a successful delete removes the
  rows with the given id from its own table and leaves every other table as it was. A
  property interest, an appointment, a communication log and a client document are removed
  whenever they exist, since no foreign key points at them. A client is removed only when no
  property interest, appointment, communication log or client document references it, and a
  property only when no appointment references it; when a dependent row references the row,
  the foreign key of db.sql makes the statement fail, the answer is 400 and nothing is
  removed, so no dependent is ever orphaned. (Users behave like clients, see claim C4.)
\<close>

theorem delete_outcomes:
  "(find (\<lambda>c. cli_id c = pid) (clients d) = Some c \<and>
    \<not> list_ex (\<lambda>i. cpi_client_id i = pid) (client_property_interests d) \<and>
    \<not> list_ex (\<lambda>a. apt_client_id a = pid) (appointments d) \<and>
    \<not> list_ex (\<lambda>l. log_client_id l = pid) (communication_logs d) \<and>
    \<not> list_ex (\<lambda>x. doc_client_id x = pid) (client_documents d) \<longrightarrow>
      delete_clients_id d pid =
        (Json 200 (Message ''Client deleted successfully''),
         d\<lparr>clients := filter (\<lambda>c. cli_id c \<noteq> pid) (clients d)\<rparr>)) \<and>
   (find (\<lambda>c. cli_id c = pid) (clients d) = Some c \<and>
    (list_ex (\<lambda>i. cpi_client_id i = pid) (client_property_interests d) \<or>
     list_ex (\<lambda>a. apt_client_id a = pid) (appointments d) \<or>
     list_ex (\<lambda>l. log_client_id l = pid) (communication_logs d) \<or>
     list_ex (\<lambda>x. doc_client_id x = pid) (client_documents d)) \<longrightarrow>
      (\<exists>child. delete_clients_id d pid =
         (Json 400 (Failure (PgForeignKeyViolation ''clients'' child)), d))) \<and>
   (find (\<lambda>p. prp_id p = pid) (properties d) = Some p \<and>
    \<not> list_ex (\<lambda>a. apt_property_id a = Some pid) (appointments d) \<longrightarrow>
      delete_properties_id d pid =
        (Json 200 (Message ''Property deleted successfully''),
         d\<lparr>properties := filter (\<lambda>p. prp_id p \<noteq> pid) (properties d)\<rparr>)) \<and>
   (find (\<lambda>p. prp_id p = pid) (properties d) = Some p \<and>
    list_ex (\<lambda>a. apt_property_id a = Some pid) (appointments d) \<longrightarrow>
      delete_properties_id d pid =
        (Json 400 (Failure (PgForeignKeyViolation ''properties'' ''appointments'')), d)) \<and>
   (find (\<lambda>i. cpi_id i = pid) (client_property_interests d) = Some i \<longrightarrow>
      delete_client_property_interests_id d pid =
        (Json 200 (Message ''Record deleted successfully''),
         d\<lparr>client_property_interests :=
             filter (\<lambda>i. cpi_id i \<noteq> pid) (client_property_interests d)\<rparr>)) \<and>
   (find (\<lambda>a. apt_id a = pid) (appointments d) = Some a \<longrightarrow>
      delete_appointments_id d pid =
        (Json 200 (Message ''Appointment deleted successfully''),
         d\<lparr>appointments := filter (\<lambda>a. apt_id a \<noteq> pid) (appointments d)\<rparr>)) \<and>
   (find (\<lambda>l. log_id l = pid) (communication_logs d) = Some l \<longrightarrow>
      delete_communication_logs_id d pid =
        (Json 200 (Message ''Communication log deleted successfully''),
         d\<lparr>communication_logs := filter (\<lambda>l. log_id l \<noteq> pid) (communication_logs d)\<rparr>)) \<and>
   (find (\<lambda>x. doc_id x = pid) (client_documents d) = Some x \<longrightarrow>
      delete_client_documents_id d pid =
        (Json 200 (Message ''Client document deleted successfully''),
         d\<lparr>client_documents := filter (\<lambda>x. doc_id x \<noteq> pid) (client_documents d)\<rparr>))"
proof (intro conjI impI)
  assume "find (\<lambda>c. cli_id c = pid) (clients d) = Some c \<and>
    \<not> list_ex (\<lambda>i. cpi_client_id i = pid) (client_property_interests d) \<and>
    \<not> list_ex (\<lambda>a. apt_client_id a = pid) (appointments d) \<and>
    \<not> list_ex (\<lambda>l. log_client_id l = pid) (communication_logs d) \<and>
    \<not> list_ex (\<lambda>x. doc_client_id x = pid) (client_documents d)"
  then show "delete_clients_id d pid =
        (Json 200 (Message ''Client deleted successfully''),
         d\<lparr>clients := filter (\<lambda>c. cli_id c \<noteq> pid) (clients d)\<rparr>)"
    using delete_client_removed referencing_client_none by blast
next
  assume held: "find (\<lambda>c. cli_id c = pid) (clients d) = Some c \<and>
    (list_ex (\<lambda>i. cpi_client_id i = pid) (client_property_interests d) \<or>
     list_ex (\<lambda>a. apt_client_id a = pid) (appointments d) \<or>
     list_ex (\<lambda>l. log_client_id l = pid) (communication_logs d) \<or>
     list_ex (\<lambda>x. doc_client_id x = pid) (client_documents d))"
  then obtain child others where "referencing_client d pid = child # others"
    using referencing_client_some [of pid d] by blast
  then show "\<exists>child. delete_clients_id d pid =
         (Json 400 (Failure (PgForeignKeyViolation ''clients'' child)), d)"
    using held delete_client_blocked by blast
qed (simp_all add: delete_property_removed delete_property_blocked delete_interest_removed
    delete_appointment_removed delete_log_removed delete_document_removed)

lemma seed_clients_found:
  "find (\<lambda>c. cli_id c = ''c1'') (clients seed) = Some seed_c1 \<and>
   find (\<lambda>c. cli_id c = ''c3'') (clients seed) = Some seed_c3"
  by (simp add: seed_def seed_c1_def seed_c2_def seed_c3_def)

lemma seed_c3_unreferenced:
  "\<not> list_ex (\<lambda>i. cpi_client_id i = ''c3'') (client_property_interests seed) \<and>
   \<not> list_ex (\<lambda>a. apt_client_id a = ''c3'') (appointments seed) \<and>
   \<not> list_ex (\<lambda>l. log_client_id l = ''c3'') (communication_logs seed) \<and>
   \<not> list_ex (\<lambda>x. doc_client_id x = ''c3'') (client_documents seed)"
  by (simp add: seed_def seed_cpi1_def seed_cpi2_def seed_a1_def seed_a2_def seed_cl1_def
      seed_cl2_def seed_cl3_def seed_cd1_def seed_cd2_def)

lemma seed_c1_referenced:
  "list_ex (\<lambda>i. cpi_client_id i = ''c1'') (client_property_interests seed)"
  by (simp add: seed_def seed_cpi1_def)

lemma seed_properties_found:
  "find (\<lambda>p. prp_id p = ''p1'') (properties seed) = Some seed_p1 \<and>
   find (\<lambda>p. prp_id p = ''p2'') (properties seed) = Some seed_p2 \<and>
   list_ex (\<lambda>a. apt_property_id a = Some ''p1'') (appointments seed) \<and>
   \<not> list_ex (\<lambda>a. apt_property_id a = Some ''p2'') (appointments seed)"
  by (simp add: seed_def seed_p1_def seed_p2_def seed_a1_def seed_a2_def)

lemma seed_leaves_found:
  "find (\<lambda>i. cpi_id i = ''cpi1'') (client_property_interests seed) = Some seed_cpi1 \<and>
   find (\<lambda>a. apt_id a = ''a1'') (appointments seed) = Some seed_a1 \<and>
   find (\<lambda>l. log_id l = ''cl1'') (communication_logs seed) = Some seed_cl1 \<and>
   find (\<lambda>x. doc_id x = ''cd1'') (client_documents seed) = Some seed_cd1"
  by (simp add: seed_def seed_cpi1_def seed_a1_def seed_cl1_def seed_cd1_def)

lemma seed_tables_without:
  "filter (\<lambda>c. cli_id c \<noteq> ''c3'') (clients seed) = [seed_c1, seed_c2] \<and>
   filter (\<lambda>p. prp_id p \<noteq> ''p2'') (properties seed) = [seed_p1] \<and>
   filter (\<lambda>i. cpi_id i \<noteq> ''cpi1'') (client_property_interests seed) = [seed_cpi2] \<and>
   filter (\<lambda>a. apt_id a \<noteq> ''a1'') (appointments seed) = [seed_a2] \<and>
   filter (\<lambda>l. log_id l \<noteq> ''cl1'') (communication_logs seed) = [seed_cl2, seed_cl3] \<and>
   filter (\<lambda>x. doc_id x \<noteq> ''cd1'') (client_documents seed) = [seed_cd2]"
  by (simp add: seed_def seed_c1_def seed_c2_def seed_c3_def seed_p1_def seed_p2_def
      seed_cpi1_def seed_cpi2_def seed_a1_def seed_a2_def seed_cl1_def seed_cl2_def seed_cl3_def
      seed_cd1_def seed_cd2_def)

text \<open>
  The theorem on the seed rows: client \<^verbatim>\<open>c3\<close> and property \<^verbatim>\<open>p2\<close>, which nothing references,
  are removed; client \<^verbatim>\<open>c1\<close> and property \<^verbatim>\<open>p1\<close> are not; the first row of each dependent
  table is removed.
\<close>

theorem delete_outcomes_witness:
  "delete_clients_id seed ''c3'' =
     (Json 200 (Message ''Client deleted successfully''), seed\<lparr>clients := [seed_c1, seed_c2]\<rparr>) \<and>
   (\<exists>child. delete_clients_id seed ''c1'' =
      (Json 400 (Failure (PgForeignKeyViolation ''clients'' child)), seed)) \<and>
   delete_properties_id seed ''p2'' =
     (Json 200 (Message ''Property deleted successfully''), seed\<lparr>properties := [seed_p1]\<rparr>) \<and>
   delete_properties_id seed ''p1'' =
     (Json 400 (Failure (PgForeignKeyViolation ''properties'' ''appointments'')), seed) \<and>
   delete_client_property_interests_id seed ''cpi1'' =
     (Json 200 (Message ''Record deleted successfully''),
      seed\<lparr>client_property_interests := [seed_cpi2]\<rparr>) \<and>
   delete_appointments_id seed ''a1'' =
     (Json 200 (Message ''Appointment deleted successfully''), seed\<lparr>appointments := [seed_a2]\<rparr>) \<and>
   delete_communication_logs_id seed ''cl1'' =
     (Json 200 (Message ''Communication log deleted successfully''),
      seed\<lparr>communication_logs := [seed_cl2, seed_cl3]\<rparr>) \<and>
   delete_client_documents_id seed ''cd1'' =
     (Json 200 (Message ''Client document deleted successfully''),
      seed\<lparr>client_documents := [seed_cd2]\<rparr>)"
  using seed_clients_found seed_c3_unreferenced seed_c1_referenced seed_properties_found
    seed_leaves_found seed_tables_without
    delete_outcomes [of "''c3''" seed seed_c3]
    delete_outcomes [of "''c1''" seed seed_c1]
    delete_outcomes [of "''p2''" seed _ seed_p2]
    delete_outcomes [of "''p1''" seed _ seed_p1]
    delete_outcomes [of "''cpi1''" seed _ _ seed_cpi1]
    delete_outcomes [of "''a1''" seed _ _ _ seed_a1]
    delete_outcomes [of "''cl1''" seed _ _ _ _ seed_cl1]
    delete_outcomes [of "''cd1''" seed _ _ _ _ _ seed_cd1]
  by simp

text \<open>
  Claim C5 as the spec states it fails: client \<^verbatim>\<open>c1\<close> of the seed rows has a property
  interest, and its delete is answered with 400 and changes nothing.
\<close>

theorem referenced_client_is_not_deleted:
  "list_ex (\<lambda>i. cpi_client_id i = ''c1'') (client_property_interests seed) \<and>
   delete_clients_id seed ''c1'' =
     (Json 400 (Failure (PgForeignKeyViolation ''clients'' ''client_property_interests'')), seed)"
proof -
  have held: "referencing_client seed ''c1'' =
      ''client_property_interests'' # [''appointments'', ''communication_logs'', ''client_documents'']"
    by (simp add: referencing_client_def seed_def seed_cpi1_def seed_cpi2_def seed_a1_def
        seed_a2_def seed_cl1_def seed_cl2_def seed_cl3_def seed_cd1_def seed_cd2_def)
  have found: "find (\<lambda>c. cli_id c = ''c1'') (clients seed) = Some seed_c1"
    using seed_clients_found by simp
  show ?thesis
    using seed_c1_referenced delete_client_blocked [OF found held] by simp
qed

section \<open>Empty strings in an update (claim C6)\<close>

lemma rejects_empty_first_name:
  assumes "map_of body ''first_name'' = Some (JStr [])"
  shows "\<exists>js. put_clients_id X now d pid body = (Json 400 (Failure (ZodError js)), d) \<and>
           Issue ''first_name'' ''too_small'' \<in> set js"
proof -
  have "z_string_min1_optional (with_id pid body) ''first_name'' = Inl [Issue ''first_name'' ''too_small'']"
    using assms by (simp add: min1_optional_empty map_of_with_id)
  then have "\<exists>js. updateClientInputSchema X (with_id pid body) = Inl (ZodError js) \<and>
      Issue ''first_name'' ''too_small'' \<in> set js"
    unfolding updateClientInputSchema_def Let_def
    by (simp only:) (intro zod_parse_issue zod_field_new_issue zod_field_keeps_issue)
  then obtain js where
    "updateClientInputSchema X (with_id pid body) = Inl (ZodError js)"
    and "Issue ''first_name'' ''too_small'' \<in> set js"
    by (elim exE conjE)
  then show ?thesis
    by (intro exI [of _ js]) (simp add: put_clients_id_def)
qed

lemma rejects_empty_last_name:
  assumes "map_of body ''last_name'' = Some (JStr [])"
  shows "\<exists>js. put_clients_id X now d pid body = (Json 400 (Failure (ZodError js)), d) \<and>
           Issue ''last_name'' ''too_small'' \<in> set js"
proof -
  have "z_string_min1_optional (with_id pid body) ''last_name'' = Inl [Issue ''last_name'' ''too_small'']"
    using assms by (simp add: min1_optional_empty map_of_with_id)
  then have "\<exists>js. updateClientInputSchema X (with_id pid body) = Inl (ZodError js) \<and>
      Issue ''last_name'' ''too_small'' \<in> set js"
    unfolding updateClientInputSchema_def Let_def
    by (simp only:) (intro zod_parse_issue zod_field_new_issue zod_field_keeps_issue)
  then obtain js where
    "updateClientInputSchema X (with_id pid body) = Inl (ZodError js)"
    and "Issue ''last_name'' ''too_small'' \<in> set js"
    by (elim exE conjE)
  then show ?thesis
    by (intro exI [of _ js]) (simp add: put_clients_id_def)
qed

lemma rejects_empty_phone:
  assumes "map_of body ''phone'' = Some (JStr [])"
  shows "\<exists>js. put_clients_id X now d pid body = (Json 400 (Failure (ZodError js)), d) \<and>
           Issue ''phone'' ''too_small'' \<in> set js"
proof -
  have "z_string_min1_optional (with_id pid body) ''phone'' = Inl [Issue ''phone'' ''too_small'']"
    using assms by (simp add: min1_optional_empty map_of_with_id)
  then have "\<exists>js. updateClientInputSchema X (with_id pid body) = Inl (ZodError js) \<and>
      Issue ''phone'' ''too_small'' \<in> set js"
    unfolding updateClientInputSchema_def Let_def
    by (simp only:) (intro zod_parse_issue zod_field_new_issue zod_field_keeps_issue)
  then obtain js where
    "updateClientInputSchema X (with_id pid body) = Inl (ZodError js)"
    and "Issue ''phone'' ''too_small'' \<in> set js"
    by (elim exE conjE)
  then show ?thesis
    by (intro exI [of _ js]) (simp add: put_clients_id_def)
qed

lemma rejects_empty_address:
  assumes "map_of body ''address'' = Some (JStr [])"
  shows "\<exists>js. put_clients_id X now d pid body = (Json 400 (Failure (ZodError js)), d) \<and>
           Issue ''address'' ''too_small'' \<in> set js"
proof -
  have "z_string_min1_optional (with_id pid body) ''address'' = Inl [Issue ''address'' ''too_small'']"
    using assms by (simp add: min1_optional_empty map_of_with_id)
  then have "\<exists>js. updateClientInputSchema X (with_id pid body) = Inl (ZodError js) \<and>
      Issue ''address'' ''too_small'' \<in> set js"
    unfolding updateClientInputSchema_def Let_def
    by (simp only:) (intro zod_parse_issue zod_field_new_issue zod_field_keeps_issue)
  then obtain js where
    "updateClientInputSchema X (with_id pid body) = Inl (ZodError js)"
    and "Issue ''address'' ''too_small'' \<in> set js"
    by (elim exE conjE)
  then show ?thesis
    by (intro exI [of _ js]) (simp add: put_clients_id_def)
qed

lemma rejects_empty_status:
  assumes "map_of body ''status'' = Some (JStr [])"
  shows "\<exists>js. put_clients_id X now d pid body = (Json 400 (Failure (ZodError js)), d) \<and>
           Issue ''status'' ''too_small'' \<in> set js"
proof -
  have "z_string_min1_optional (with_id pid body) ''status'' = Inl [Issue ''status'' ''too_small'']"
    using assms by (simp add: min1_optional_empty map_of_with_id)
  then have "\<exists>js. updateClientInputSchema X (with_id pid body) = Inl (ZodError js) \<and>
      Issue ''status'' ''too_small'' \<in> set js"
    unfolding updateClientInputSchema_def Let_def
    by (simp only:) (intro zod_parse_issue zod_field_new_issue zod_field_keeps_issue)
  then obtain js where
    "updateClientInputSchema X (with_id pid body) = Inl (ZodError js)"
    and "Issue ''status'' ''too_small'' \<in> set js"
    by (elim exE conjE)
  then show ?thesis
    by (intro exI [of _ js]) (simp add: put_clients_id_def)
qed

lemma rejects_empty_email:
  assumes "map_of body ''email'' = Some (JStr [])" and "\<not> zod_email X []"
  shows "\<exists>js. put_clients_id X now d pid body = (Json 400 (Failure (ZodError js)), d) \<and>
           Issue ''email'' ''invalid_string'' \<in> set js"
proof -
  have "z_string_email_optional X (with_id pid body) ''email'' = Inl [Issue ''email'' ''invalid_string'']"
    using assms by (simp add: email_optional_empty map_of_with_id)
  then have "\<exists>js. updateClientInputSchema X (with_id pid body) = Inl (ZodError js) \<and>
      Issue ''email'' ''invalid_string'' \<in> set js"
    unfolding updateClientInputSchema_def Let_def
    by (simp only:) (intro zod_parse_issue zod_field_new_issue zod_field_keeps_issue)
  then obtain js where
    "updateClientInputSchema X (with_id pid body) = Inl (ZodError js)"
    and "Issue ''email'' ''invalid_string'' \<in> set js"
    by (elim exE conjE)
  then show ?thesis
    by (intro exI [of _ js]) (simp add: put_clients_id_def)
qed

text \<open>
  Claim C6, as the code has it: a \<^verbatim>\<open>PUT /api/clients/:id\<close> whose body sets \<^verbatim>\<open>first_name\<close>,
  \<^verbatim>\<open>last_name\<close>, \<^verbatim>\<open>phone\<close>, \<^verbatim>\<open>address\<close> or \<^verbatim>\<open>status\<close> to the empty string is rejected by
  \<open>updateClientInputSchema\<close> (\<^verbatim>\<open>z.string().min(1)\<close>): the answer is 400 with a validation error
  that names the field, and the database is unchanged, whether the client exists or not.
  The same holds for \<^verbatim>\<open>email\<close>, the empty string not being an email address.
\<close>

theorem empty_string_update_rejected:
  "(map_of body ''first_name'' = Some (JStr []) \<longrightarrow>
      (\<exists>js. put_clients_id X now d pid body = (Json 400 (Failure (ZodError js)), d) \<and>
         Issue ''first_name'' ''too_small'' \<in> set js)) \<and>
   (map_of body ''last_name'' = Some (JStr []) \<longrightarrow>
      (\<exists>js. put_clients_id X now d pid body = (Json 400 (Failure (ZodError js)), d) \<and>
         Issue ''last_name'' ''too_small'' \<in> set js)) \<and>
   (map_of body ''email'' = Some (JStr []) \<and> \<not> zod_email X [] \<longrightarrow>
      (\<exists>js. put_clients_id X now d pid body = (Json 400 (Failure (ZodError js)), d) \<and>
         Issue ''email'' ''invalid_string'' \<in> set js)) \<and>
   (map_of body ''phone'' = Some (JStr []) \<longrightarrow>
      (\<exists>js. put_clients_id X now d pid body = (Json 400 (Failure (ZodError js)), d) \<and>
         Issue ''phone'' ''too_small'' \<in> set js)) \<and>
   (map_of body ''address'' = Some (JStr []) \<longrightarrow>
      (\<exists>js. put_clients_id X now d pid body = (Json 400 (Failure (ZodError js)), d) \<and>
         Issue ''address'' ''too_small'' \<in> set js)) \<and>
   (map_of body ''status'' = Some (JStr []) \<longrightarrow>
      (\<exists>js. put_clients_id X now d pid body = (Json 400 (Failure (ZodError js)), d) \<and>
         Issue ''status'' ''too_small'' \<in> set js))"
proof (intro conjI impI)
  show "\<exists>js. put_clients_id X now d pid body = (Json 400 (Failure (ZodError js)), d) \<and>
         Issue ''email'' ''invalid_string'' \<in> set js"
    if "map_of body ''email'' = Some (JStr []) \<and> \<not> zod_email X []"
    using that rejects_empty_email [of body X now d pid] by (elim conjE)
qed (rule rejects_empty_first_name rejects_empty_last_name rejects_empty_phone
    rejects_empty_address rejects_empty_status, assumption)+

text \<open>The theorem on two requests for client \<^verbatim>\<open>c1\<close> of the seed rows.\<close>

theorem empty_string_update_rejected_witness:
  "(\<exists>js. put_clients_id stand_in ''2024-01-01T00:00:00.000Z'' seed ''c1''
       [(''first_name'', JStr ''Alicia''), (''email'', JStr [])] =
     (Json 400 (Failure (ZodError js)), seed) \<and> Issue ''email'' ''invalid_string'' \<in> set js) \<and>
   (\<exists>js. put_clients_id stand_in ''2024-01-01T00:00:00.000Z'' seed ''c1''
       [(''first_name'', JStr []), (''last_name'', JStr []), (''phone'', JStr []),
        (''address'', JStr []), (''status'', JStr [])] =
     (Json 400 (Failure (ZodError js)), seed) \<and> Issue ''status'' ''too_small'' \<in> set js)"
proof -
  have "\<not> zod_email stand_in []"
    by (simp add: stand_in_def)
  then show ?thesis
    using empty_string_update_rejected [of "[(''first_name'', JStr ''Alicia''), (''email'', JStr [])]"
        stand_in "''2024-01-01T00:00:00.000Z''" seed "''c1''"]
      empty_string_update_rejected [of "[(''first_name'', JStr []), (''last_name'', JStr []),
        (''phone'', JStr []), (''address'', JStr []), (''status'', JStr [])]"
        stand_in "''2024-01-01T00:00:00.000Z''" seed "''c1''"]
    by simp
qed

text \<open>
  Claim C6 as the spec states it fails: the update of client \<^verbatim>\<open>c1\<close> with an empty
  \<^verbatim>\<open>first_name\<close> is not silently ignored but answered with 400 and a validation error.
\<close>

theorem empty_first_name_is_a_validation_error:
  "put_clients_id stand_in ''2024-01-01T00:00:00.000Z'' seed ''c1'' [(''first_name'', JStr [])] =
     (Json 400 (Failure (ZodError [Issue ''first_name'' ''too_small''])), seed)"
  by (simp add: put_clients_id_def updateClientInputSchema_def with_id_def z_string_def
      z_string_min1_optional_def z_string_email_optional_def z_any_nullable_optional_def
      zod_parse_def)

section \<open>Pagination of the client list (claim C7)\<close>

text \<open>
  What the statement of \<^verbatim>\<open>GET /api/clients\<close> would return for the two pages, and what the
  route returns when the query string names no \<^verbatim>\<open>limit\<close> and no \<^verbatim>\<open>offset\<close>: the first ten
  rows, latest first.
\<close>

lemma pages_of_the_statement:
  "limit_offset 2 0 rows @ limit_offset 2 2 rows = take 4 rows"
  "distinct rows \<Longrightarrow> set (limit_offset 2 0 rows) \<inter> set (limit_offset 2 2 rows) = {}"
proof -
  show "limit_offset 2 0 rows @ limit_offset 2 2 rows = take 4 rows"
    using take_add [of 2 2 rows] by (simp add: limit_offset_def)
  assume "distinct rows"
  then have "set (take 2 rows) \<inter> set (drop 2 rows) = {}"
    by (rule set_take_disj_set_drop_if_distinct) simp
  moreover have "set (take 2 (drop 2 rows)) \<subseteq> set (drop 2 rows)"
    by (rule set_take_subset)
  ultimately show "set (limit_offset 2 0 rows) \<inter> set (limit_offset 2 2 rows) = {}"
    by (auto simp: limit_offset_def)
qed

lemma default_page:
  "get_clients X d [] =
     Json 200 (Entities (map ClientRow (take 10 (rev (sort_key cli_created_at (clients d))))))"
  by (simp add: get_clients_def searchClientInputSchema_def searchInputSchema_def
      z_string_optional_def z_int_positive_default_def z_int_nonnegative_default_def
      z_enum_default_def zod_parse_def order_by_def limit_offset_def client_column_def)

text \<open>
  A query string hands every value over as a string, and \<^verbatim>\<open>z.number()\<close> accepts numbers
  only: whenever \<^verbatim>\<open>limit\<close> or \<^verbatim>\<open>offset\<close> is given, the schema refuses the request.
\<close>

lemma limit_as_string_rejected:
  assumes "map_of query ''limit'' = Some (JStr s)"
  shows "\<exists>js. get_clients X d query = Json 400 (Failure (ZodError js)) \<and>
           Issue ''limit'' ''invalid_type'' \<in> set js"
proof -
  have "z_int_positive_default 10 query ''limit'' = Inl [Issue ''limit'' ''invalid_type'']"
    using assms by (simp add: z_int_positive_default_def)
  then have "\<exists>js. searchClientInputSchema query = Inl (ZodError js) \<and>
      Issue ''limit'' ''invalid_type'' \<in> set js"
    unfolding searchClientInputSchema_def searchInputSchema_def Let_def
    by (simp only:) (intro zod_parse_issue zod_field_new_issue zod_field_keeps_issue)
  then obtain js where "searchClientInputSchema query = Inl (ZodError js)"
    and "Issue ''limit'' ''invalid_type'' \<in> set js"
    by (elim exE conjE)
  then show ?thesis
    by (intro exI [of _ js]) (simp add: get_clients_def)
qed

lemma offset_as_string_rejected:
  assumes "map_of query ''offset'' = Some (JStr s)"
  shows "\<exists>js. get_clients X d query = Json 400 (Failure (ZodError js)) \<and>
           Issue ''offset'' ''invalid_type'' \<in> set js"
proof -
  have "z_int_nonnegative_default 0 query ''offset'' = Inl [Issue ''offset'' ''invalid_type'']"
    using assms by (simp add: z_int_nonnegative_default_def)
  then have "\<exists>js. searchClientInputSchema query = Inl (ZodError js) \<and>
      Issue ''offset'' ''invalid_type'' \<in> set js"
    unfolding searchClientInputSchema_def searchInputSchema_def Let_def
    by (simp only:) (intro zod_parse_issue zod_field_new_issue zod_field_keeps_issue)
  then obtain js where "searchClientInputSchema query = Inl (ZodError js)"
    and "Issue ''offset'' ''invalid_type'' \<in> set js"
    by (elim exE conjE)
  then show ?thesis
    by (intro exI [of _ js]) (simp add: get_clients_def)
qed

text \<open>
  Claim C7 on the code: the two requests \<^verbatim>\<open>limit=2&offset=0\<close> and \<^verbatim>\<open>limit=2&offset=2\<close> are
  both refused with status 400, whatever the table holds, instead of returning the first
  two and the next two rows.
\<close>

theorem limit_offset_rejected:
  "get_clients X d [(''limit'', JStr ''2''), (''offset'', JStr ''0'')] =
     Json 400 (Failure (ZodError [Issue ''limit'' ''invalid_type'', Issue ''offset'' ''invalid_type''])) \<and>
   get_clients X d [(''limit'', JStr ''2''), (''offset'', JStr ''2'')] =
     Json 400 (Failure (ZodError [Issue ''limit'' ''invalid_type'', Issue ''offset'' ''invalid_type'']))"
  by (simp add: get_clients_def searchClientInputSchema_def searchInputSchema_def
      z_string_optional_def z_int_positive_default_def z_int_nonnegative_default_def
      z_enum_default_def zod_parse_def)

section \<open>Login (claim C8)\<close>








section \<open>The export route (claim C9)\<close>

lemma export_path_first_match:
  "first_match get_routes [''api'', ''clients'', ''export''] = Some (Clients_by_id, [''export''])"
  by (simp add: get_routes_def)

text \<open>
  The handler registered for \<^verbatim>\<open>/api/clients/export\<close> does what claim C9 says when it runs:
  for an admin or support caller an empty table gives 404 with the message of the claim,
  and a CSV body is sent only when there is a row.
\<close>

lemma export_handler_when_reached:
  "pl_role user = ''admin'' \<or> pl_role user = ''support'' \<Longrightarrow>
   (clients d = [] \<longrightarrow>
      get_clients_export X d user = Json 404 (Message ''No clients found for export'')) \<and>
   (clients d \<noteq> [] \<longrightarrow> (\<exists>csv. get_clients_export X d user = SendCsv csv))"
  by (auto simp: get_clients_export_def split: list.splits)

text \<open>
  Claim C9 on the running server: \<^verbatim>\<open>GET /api/clients/export\<close> never reaches that handler.
  The route \<^verbatim>\<open>/api/clients/:id\<close> is registered first and matches the path with
  \<^verbatim>\<open>id = "export"\<close>, so the request is answered by the lookup of a client whose id is
  \<^verbatim>\<open>export\<close>: for an admin, on the empty table and on the seed table alike, 404 with the
  message \<^verbatim>\<open>Client not found\<close>, and no CSV.
\<close>

theorem export_route_shadowed:
  "app_get X now d h [''api'', ''clients'', ''export''] q =
     Some (guarded X now h id (\<lambda>user. get_clients_id d ''export'')) \<and>
   app_get stand_in 0 empty_db (Some ''Bearer jwt.u1.admin'') [''api'', ''clients'', ''export''] [] =
     Some (Json 404 (Message ''Client not found'')) \<and>
   app_get stand_in 0 seed (Some ''Bearer jwt.u1.admin'') [''api'', ''clients'', ''export''] [] =
     Some (Json 404 (Message ''Client not found''))"
proof -
  have routed: "app_get X now d h [''api'', ''clients'', ''export''] q =
      Some (guarded X now h id (\<lambda>user. get_clients_id d ''export''))" for X now d h q
    by (simp add: app_get_def export_path_first_match)
  have none: "get_clients_id empty_db ''export'' = Json 404 (Message ''Client not found'')"
    by (simp add: get_clients_id_def empty_db_def)
  have some: "get_clients_id seed ''export'' = Json 404 (Message ''Client not found'')"
    by (simp add: get_clients_id_def seed_def seed_c1_def seed_c2_def seed_c3_def)
  show ?thesis
    by (simp add: routed guarded_def stand_in_admin_token none some)
qed

section \<open>Updates that set nothing (claim C10)\<close>

lemma absent_fields:
  "map_of obj k = None \<Longrightarrow> z_string_min1_optional obj k = Inr None"
  "map_of obj k = None \<Longrightarrow> z_number_nullable_optional obj k = Inr None"
  "map_of obj k = None \<Longrightarrow> z_string_nullable_optional obj k = Inr None"
  "map_of obj k = None \<Longrightarrow> z_boolean_optional obj k = Inr None"
  "map_of obj k = None \<Longrightarrow> z_coerce_date_optional X obj k = Inr None"
  "map_of obj k = None \<Longrightarrow> z_string_url_optional X obj k = Inr None"
  by (simp_all add: z_string_min1_optional_def z_number_nullable_optional_def
      z_string_nullable_optional_def z_boolean_optional_def z_coerce_date_optional_def
      z_string_url_optional_def)

lemma sql_update_nothing: "sql_update assign key rows [] pid = Inl PgSyntaxError"
  by (simp add: sql_update_def)

lemma interest_no_fields:
  assumes "updateClientPropertyInterestInputSchema (with_id pid body) = Inr p"
    and "map_of body ''property_type'' = None" and "map_of body ''preferred_location'' = None"
    and "map_of body ''price_min'' = None" and "map_of body ''price_max'' = None"
    and "map_of body ''additional_notes'' = None"
  shows "interest_fields p = []"
proof -
  let ?obj = "with_id pid body"
  from assms(1) obtain x1 x2 x3 x4 x5 x6 x7 where
    fields: "z_string_min1_optional ?obj ''property_type'' = Inr x3"
      "z_string_min1_optional ?obj ''preferred_location'' = Inr x4"
      "z_number_nullable_optional ?obj ''price_min'' = Inr x5"
      "z_number_nullable_optional ?obj ''price_max'' = Inr x6"
      "z_string_nullable_optional ?obj ''additional_notes'' = Inr x7"
    and p: "p = \<lparr>uii_id = x1, uii_client_id = x2, uii_property_type = x3,
                 uii_preferred_location = x4, uii_price_min = x5, uii_price_max = x6,
                 uii_additional_notes = x7\<rparr>"
    unfolding updateClientPropertyInterestInputSchema_def Let_def zod_parse_def
    by (auto split: sum.splits elim!: zod_field_InrE)
  have "x3 = None" "x4 = None" "x5 = None" "x6 = None" "x7 = None"
    using fields assms(2-6) by (auto simp: absent_fields map_of_with_id)
  then show ?thesis
    by (simp add: p interest_fields_def if_truthy_def if_in_def)
qed

lemma log_no_fields:
  assumes "updateCommunicationLogInputSchema X (with_id pid body) = Inr p"
    and "map_of body ''communication_type'' = None" and "map_of body ''note'' = None"
    and "map_of body ''follow_up_flag'' = None" and "map_of body ''timestamp'' = None"
  shows "log_fields p = []"
proof -
  let ?obj = "with_id pid body"
  from assms(1) obtain x1 x2 x3 x4 x5 x6 x7 where
    fields: "z_string_min1_optional ?obj ''communication_type'' = Inr x4"
      "z_string_min1_optional ?obj ''note'' = Inr x5"
      "z_boolean_optional ?obj ''follow_up_flag'' = Inr x6"
      "z_coerce_date_optional X ?obj ''timestamp'' = Inr x7"
    and p: "p = \<lparr>uli_id = x1, uli_client_id = x2, uli_user_id = x3,
                 uli_communication_type = x4, uli_note = x5, uli_follow_up_flag = x6,
                 uli_timestamp = x7\<rparr>"
    unfolding updateCommunicationLogInputSchema_def Let_def zod_parse_def
    by (auto split: sum.splits elim!: zod_field_InrE)
  have "x4 = None" "x5 = None" "x6 = None" "x7 = None"
    using fields assms(2-5) by (auto simp: absent_fields map_of_with_id)
  then show ?thesis
    by (simp add: p log_fields_def if_truthy_def if_in_def)
qed

lemma document_no_fields:
  assumes "updateClientDocumentInputSchema X (with_id pid body) = Inr p"
    and "map_of body ''document_name'' = None" and "map_of body ''document_url'' = None"
    and "map_of body ''document_type'' = None"
  shows "document_fields p = []"
proof -
  let ?obj = "with_id pid body"
  from assms(1) obtain x1 x2 x3 x4 x5 where
    fields: "z_string_min1_optional ?obj ''document_name'' = Inr x3"
      "z_string_url_optional X ?obj ''document_url'' = Inr x4"
      "z_string_min1_optional ?obj ''document_type'' = Inr x5"
    and p: "p = \<lparr>udi_id = x1, udi_client_id = x2, udi_document_name = x3,
                 udi_document_url = x4, udi_document_type = x5\<rparr>"
    unfolding updateClientDocumentInputSchema_def Let_def zod_parse_def
    by (auto split: sum.splits elim!: zod_field_InrE)
  have "x3 = None" "x4 = None" "x5 = None"
    using fields assms(2-4) by (auto simp: absent_fields map_of_with_id)
  then show ?thesis
    by (simp add: p document_fields_def if_truthy_def)
qed

lemma empty_body_schemas:
  "updateClientPropertyInterestInputSchema (with_id pid []) =
     Inr \<lparr>uii_id = pid, uii_client_id = None, uii_property_type = None,
          uii_preferred_location = None, uii_price_min = None, uii_price_max = None,
          uii_additional_notes = None\<rparr>"
  "updateCommunicationLogInputSchema X (with_id pid []) =
     Inr \<lparr>uli_id = pid, uli_client_id = None, uli_user_id = None, uli_communication_type = None,
          uli_note = None, uli_follow_up_flag = None, uli_timestamp = None\<rparr>"
  "updateClientDocumentInputSchema X (with_id pid []) =
     Inr \<lparr>udi_id = pid, udi_client_id = None, udi_document_name = None, udi_document_url = None,
          udi_document_type = None\<rparr>"
  "updateClientInputSchema X (with_id pid []) =
     Inr \<lparr>uci_id = pid, uci_first_name = None, uci_last_name = None, uci_email = None,
          uci_phone = None, uci_address = None, uci_status = None,
          uci_additional_details = None\<rparr>"
  by (simp_all add: updateClientPropertyInterestInputSchema_def updateCommunicationLogInputSchema_def
      updateClientDocumentInputSchema_def updateClientInputSchema_def with_id_def z_string_def
      z_string_optional_def z_string_min1_optional_def z_number_nullable_optional_def
      z_string_nullable_optional_def z_boolean_optional_def z_coerce_date_optional_def
      z_string_url_optional_def z_string_email_optional_def z_any_nullable_optional_def
      zod_parse_def)

lemma empty_body_bound:
  "bind_all (client_assign X)
     (client_fields \<lparr>uci_id = pid, uci_first_name = None, uci_last_name = None, uci_email = None,
          uci_phone = None, uci_address = None, uci_status = None,
          uci_additional_details = None\<rparr> now) =
     Inr (\<lambda>c. c\<lparr>cli_updated_at := now\<rparr>)"
  by (simp add: client_fields_def if_truthy_def if_in_def comp_def)

text \<open>
  Claim C10. A \<^verbatim>\<open>PUT\<close> on a property interest, a communication log or a client document whose
  body holds none of the fields that the handler updates is answered with 400 and leaves
  the database unchanged, whether a row with that id exists or not: either the schema
  refuses the body, or the handler builds an \<^verbatim>\<open>UPDATE\<close> with an empty \<^verbatim>\<open>SET\<close> list, which the
  engine refuses (for the empty body, with the syntax error). The same empty-body \<^verbatim>\<open>PUT\<close> on
  an existing client succeeds and changes \<^verbatim>\<open>updated_at\<close> only.
\<close>

theorem update_without_fields:
  "(map_of body ''property_type'' = None \<and> map_of body ''preferred_location'' = None \<and>
    map_of body ''price_min'' = None \<and> map_of body ''price_max'' = None \<and>
    map_of body ''additional_notes'' = None \<longrightarrow>
      (\<exists>e. put_client_property_interests_id d pid body = (Json 400 (Failure e), d))) \<and>
   put_client_property_interests_id d pid [] = (Json 400 (Failure PgSyntaxError), d) \<and>
   (map_of body ''communication_type'' = None \<and> map_of body ''note'' = None \<and>
    map_of body ''follow_up_flag'' = None \<and> map_of body ''timestamp'' = None \<longrightarrow>
      (\<exists>e. put_communication_logs_id X d pid body = (Json 400 (Failure e), d))) \<and>
   put_communication_logs_id X d pid [] = (Json 400 (Failure PgSyntaxError), d) \<and>
   (map_of body ''document_name'' = None \<and> map_of body ''document_url'' = None \<and>
    map_of body ''document_type'' = None \<longrightarrow>
      (\<exists>e. put_client_documents_id X d pid body = (Json 400 (Failure e), d))) \<and>
   put_client_documents_id X d pid [] = (Json 400 (Failure PgSyntaxError), d) \<and>
   (find (\<lambda>c. cli_id c = pid) (clients d) = Some r \<longrightarrow>
      put_clients_id X now d pid [] =
        (Json 200 (Entity (ClientRow (r\<lparr>cli_updated_at := now\<rparr>))),
         d\<lparr>clients := map (\<lambda>c. if cli_id c = pid then c\<lparr>cli_updated_at := now\<rparr> else c)
                          (clients d)\<rparr>))"
proof (intro conjI impI)
  assume a: "map_of body ''property_type'' = None \<and> map_of body ''preferred_location'' = None \<and>
    map_of body ''price_min'' = None \<and> map_of body ''price_max'' = None \<and>
    map_of body ''additional_notes'' = None"
  show "\<exists>e. put_client_property_interests_id d pid body = (Json 400 (Failure e), d)"
  proof (cases "updateClientPropertyInterestInputSchema (with_id pid body)")
    case (Inl e)
    then show ?thesis by (simp add: put_client_property_interests_id_def)
  next
    case (Inr p)
    then have "interest_fields p = []"
      using a interest_no_fields by blast
    then show ?thesis
      using Inr by (simp add: put_client_property_interests_id_def sql_update_nothing)
  qed
next
  assume a: "map_of body ''communication_type'' = None \<and> map_of body ''note'' = None \<and>
    map_of body ''follow_up_flag'' = None \<and> map_of body ''timestamp'' = None"
  show "\<exists>e. put_communication_logs_id X d pid body = (Json 400 (Failure e), d)"
  proof (cases "updateCommunicationLogInputSchema X (with_id pid body)")
    case (Inl e)
    then show ?thesis by (simp add: put_communication_logs_id_def)
  next
    case (Inr p)
    then have "log_fields p = []"
      using a log_no_fields by blast
    then show ?thesis
      using Inr by (simp add: put_communication_logs_id_def sql_update_nothing)
  qed
next
  assume a: "map_of body ''document_name'' = None \<and> map_of body ''document_url'' = None \<and>
    map_of body ''document_type'' = None"
  show "\<exists>e. put_client_documents_id X d pid body = (Json 400 (Failure e), d)"
  proof (cases "updateClientDocumentInputSchema X (with_id pid body)")
    case (Inl e)
    then show ?thesis by (simp add: put_client_documents_id_def)
  next
    case (Inr p)
    then have "document_fields p = []"
      using a document_no_fields by blast
    then show ?thesis
      using Inr by (simp add: put_client_documents_id_def sql_update_nothing)
  qed
next
  show "put_client_property_interests_id d pid [] = (Json 400 (Failure PgSyntaxError), d)"
    by (simp add: put_client_property_interests_id_def empty_body_schemas interest_fields_def
        if_truthy_def if_in_def sql_update_nothing)
  show "put_communication_logs_id X d pid [] = (Json 400 (Failure PgSyntaxError), d)"
    by (simp add: put_communication_logs_id_def empty_body_schemas log_fields_def
        if_truthy_def if_in_def sql_update_nothing)
  show "put_client_documents_id X d pid [] = (Json 400 (Failure PgSyntaxError), d)"
    by (simp add: put_client_documents_id_def empty_body_schemas document_fields_def
        if_truthy_def sql_update_nothing)
next
  assume "find (\<lambda>c. cli_id c = pid) (clients d) = Some r"
  then show "put_clients_id X now d pid [] =
        (Json 200 (Entity (ClientRow (r\<lparr>cli_updated_at := now\<rparr>))),
         d\<lparr>clients := map (\<lambda>c. if cli_id c = pid then c\<lparr>cli_updated_at := now\<rparr> else c)
                          (clients d)\<rparr>)"
    using put_client_stores [OF empty_body_bound empty_body_schemas(4)] by blast
qed

text \<open>
  The theorem on the seed rows: three bodies without an updated field (one for an id that
  does not exist, one that the schema refuses), and the empty update of client \<^verbatim>\<open>c2\<close>.
\<close>

theorem update_without_fields_witness:
  "(\<exists>e. put_client_property_interests_id seed ''cpi1'' [(''client_id'', JStr ''c2'')] =
      (Json 400 (Failure e), seed)) \<and>
   (\<exists>e. put_communication_logs_id stand_in seed ''no-such-log'' [(''user_id'', JStr ''u3'')] =
      (Json 400 (Failure e), seed)) \<and>
   (\<exists>e. put_client_documents_id stand_in seed ''cd1'' [(''client_id'', JNum 7)] =
      (Json 400 (Failure e), seed)) \<and>
   put_clients_id stand_in ''2024-01-01T00:00:00.000Z'' seed ''c2'' [] =
     (Json 200 (Entity (ClientRow (seed_c2\<lparr>cli_updated_at := ''2024-01-01T00:00:00.000Z''\<rparr>))),
      seed\<lparr>clients :=
        [seed_c1, seed_c2\<lparr>cli_updated_at := ''2024-01-01T00:00:00.000Z''\<rparr>, seed_c3]\<rparr>)"
  using seed_find_c2
    update_without_fields [of "[(''client_id'', JStr ''c2'')]" seed "''cpi1''"]
    update_without_fields [of "[(''user_id'', JStr ''u3'')]" seed "''no-such-log''" stand_in]
    update_without_fields [of "[(''client_id'', JNum 7)]" seed "''cd1''" stand_in]
    update_without_fields [of "[]" seed "''c2''" stand_in seed_c2 "''2024-01-01T00:00:00.000Z''"]
  by (simp add: seed_clients_update_c2)

end
